theory Spec2Isabelle
  imports Complex_Main
begin

section \<open>Planet Explorer: entity registry, state machine and interaction protocol\<close>

text \<open>
  A shallow embedding of the JavaScript sources \<^verbatim>\<open>js/spaceship.js\<close>,
  \<^verbatim>\<open>js/EntityManager.js\<close>, \<^verbatim>\<open>js/utils.js\<close>, \<^verbatim>\<open>js/ui.js\<close>,
  \<^verbatim>\<open>js/InteractionSystem.js\<close>, \<^verbatim>\<open>js/planet.js\<close> and of the first
  (state machine) version of \<^verbatim>\<open>js/game.js\<close>.

  Conventions of the embedding.
  \<^item> A JavaScript number is a real number: rounding, NaN and the infinities of IEEE
    doubles are not modelled. The registry step alone is given a second time with the
    rounding of doubles, because the strict separation of the collision correction
    depends on it.
  \<^item> An object is a record; a method that mutates \<^verbatim>\<open>this\<close> takes the record and
    returns the updated one. The fields \<^verbatim>\<open>x\<close> and \<^verbatim>\<open>y\<close> are called
    \<open>posX\<close> and \<open>posY\<close>, and the entries of \<^verbatim>\<open>keys\<close> are called
    \<open>key_w\<close>, \<open>key_a\<close>, \<open>key_s\<close>, \<open>key_d\<close>, \<open>key_space\<close>, \<open>key_e\<close>.
  \<^item> Sprites, canvas calls and DOM styling are presentation and appear only as far as
    the operations of the core read or write them.
\<close>

subsection \<open>Utility functions (\<^verbatim>\<open>utils.js\<close>)\<close>

text \<open>Every object with \<^verbatim>\<open>x\<close>, \<^verbatim>\<open>y\<close> and \<^verbatim>\<open>radius\<close> is a circle.\<close>

record Circle =
  posX :: real
  posY :: real
  radius :: real

definition distance :: "real \<Rightarrow> real \<Rightarrow> real \<Rightarrow> real \<Rightarrow> real" where
  "distance x1 y1 x2 y2 = sqrt ((x2 - x1) ^ 2 + (y2 - y1) ^ 2)"

definition checkCollision :: "'a Circle_scheme \<Rightarrow> 'b Circle_scheme \<Rightarrow> bool" where
  "checkCollision obj1 obj2 =
     (let dist = distance (posX obj1) (posY obj1) (posX obj2) (posY obj2)
      in dist < radius obj1 + radius obj2)"

definition clamp :: "real \<Rightarrow> real \<Rightarrow> real \<Rightarrow> real" where
  "clamp v lo hi = min (max v lo) hi"

subsection \<open>The spaceship (\<^verbatim>\<open>spaceship.js\<close>)\<close>

record Keys =
  key_w :: bool
  key_a :: bool
  key_s :: bool
  key_d :: bool
  key_space :: bool
  key_e :: bool

record Spaceship = Circle +
  width :: real
  height :: real
  rotation :: real
  speed :: real
  speedScale :: real
  baseMaxSpeed :: real
  baseAcceleration :: real
  baseDeceleration :: real
  baseRotationSpeed :: real
  baseBoostSpeed :: real
  maxSpeed :: real
  acceleration :: real
  deceleration :: real
  rotationSpeed :: real
  boostCharge :: real
  maxBoostCharge :: real
  boostChargeRate :: real
  boostSpeed :: real
  isBoosting :: bool
  boostDecayRate :: real
  keys :: Keys

definition Spaceship_new :: "real \<Rightarrow> real \<Rightarrow> real \<Rightarrow> real \<Rightarrow> real \<Rightarrow> Spaceship" where
  "Spaceship_new x0 y0 scale w h =
     \<lparr> posX = x0, posY = y0, radius = w / 2,
       width = w, height = h, rotation = 0, speed = 0,
       speedScale = scale,
       baseMaxSpeed = 5, baseAcceleration = 1 / 10, baseDeceleration = 5 / 100,
       baseRotationSpeed = 1 / 10, baseBoostSpeed = 10,
       maxSpeed = 5 * scale, acceleration = 1 / 10 * scale,
       deceleration = 5 / 100 * scale, rotationSpeed = 1 / 10 * scale,
       boostCharge = 0, maxBoostCharge = 100, boostChargeRate = 1 / 2,
       boostSpeed = 10 * scale, isBoosting = False, boostDecayRate = 2,
       keys = \<lparr> key_w = False, key_a = False, key_s = False, key_d = False,
                key_space = False, key_e = False \<rparr> \<rparr>"

definition setSize :: "real \<Rightarrow> real \<Rightarrow> Spaceship \<Rightarrow> Spaceship" where
  "setSize newWidth newHeight s = s\<lparr> width := newWidth, height := newHeight, radius := newWidth / 2 \<rparr>"

definition setSpeedScale :: "real \<Rightarrow> Spaceship \<Rightarrow> Spaceship" where
  "setSpeedScale scale s =
     s\<lparr> speedScale := scale,
        maxSpeed := baseMaxSpeed s * scale,
        acceleration := baseAcceleration s * scale,
        deceleration := baseDeceleration s * scale,
        rotationSpeed := baseRotationSpeed s * scale,
        boostSpeed := baseBoostSpeed s * scale \<rparr>"

text \<open>
  \<^verbatim>\<open>event.key.toLowerCase()\<close>: only the letters A to Z can become one of the keys
  the switch looks for, so lower-casing is written out for them.
\<close>

definition toLowerCase :: "string \<Rightarrow> string" where
  "toLowerCase str =
     map (\<lambda>c. if (65::nat) \<le> of_char c \<and> of_char c \<le> (90::nat)
              then char_of (of_char c + (32::nat)) else c) str"

definition setKey :: "string \<Rightarrow> bool \<Rightarrow> Keys \<Rightarrow> Keys" where
  "setKey k b ks =
     (if k = ''w'' then ks\<lparr> key_w := b \<rparr>
      else if k = ''a'' then ks\<lparr> key_a := b \<rparr>
      else if k = ''s'' then ks\<lparr> key_s := b \<rparr>
      else if k = ''d'' then ks\<lparr> key_d := b \<rparr>
      else if k = '' '' then ks\<lparr> key_space := b \<rparr>
      else if k = ''e'' then ks\<lparr> key_e := b \<rparr>
      else ks)"

definition handleKeyDown :: "string \<Rightarrow> Spaceship \<Rightarrow> Spaceship" where
  "handleKeyDown eventKey s = s\<lparr> keys := setKey (toLowerCase eventKey) True (keys s) \<rparr>"

definition handleKeyUp :: "string \<Rightarrow> Spaceship \<Rightarrow> Spaceship" where
  "handleKeyUp eventKey s = s\<lparr> keys := setKey (toLowerCase eventKey) False (keys s) \<rparr>"

text \<open>\<^verbatim>\<open>Spaceship.update\<close>, one block of the method after the other.\<close>

definition update_rotation :: "Spaceship \<Rightarrow> Spaceship" where
  "update_rotation s =
     (let s1 = (if key_a (keys s) then s\<lparr> rotation := rotation s - rotationSpeed s \<rparr> else s)
      in if key_d (keys s1) then s1\<lparr> rotation := rotation s1 + rotationSpeed s1 \<rparr> else s1)"

definition update_speed :: "Spaceship \<Rightarrow> Spaceship" where
  "update_speed s =
     (if key_w (keys s) then
        (let s1 = s\<lparr> speed := speed s + acceleration s \<rparr>
         in if speed s1 > maxSpeed s1 then s1\<lparr> speed := maxSpeed s1 \<rparr> else s1)
      else if key_s (keys s) then
        (let s1 = s\<lparr> speed := speed s - acceleration s \<rparr>
         in if speed s1 < - maxSpeed s1 then s1\<lparr> speed := - maxSpeed s1 \<rparr> else s1)
      else if speed s > 0 then
        (let s1 = s\<lparr> speed := speed s - deceleration s \<rparr>
         in if speed s1 < 0 then s1\<lparr> speed := 0 \<rparr> else s1)
      else if speed s < 0 then
        (let s1 = s\<lparr> speed := speed s + deceleration s \<rparr>
         in if speed s1 > 0 then s1\<lparr> speed := 0 \<rparr> else s1)
      else s)"

definition update_boost :: "Spaceship \<Rightarrow> Spaceship" where
  "update_boost s =
     (if \<not> isBoosting s then
        (let s1 = (if boostCharge s < maxBoostCharge s then
                     (let s' = s\<lparr> boostCharge := boostCharge s + boostChargeRate s \<rparr>
                      in if boostCharge s' > maxBoostCharge s'
                         then s'\<lparr> boostCharge := maxBoostCharge s' \<rparr> else s')
                   else s)
         in if key_space (keys s1) \<and> boostCharge s1 > 0 then s1\<lparr> isBoosting := True \<rparr> else s1)
      else
        (let s1 = s\<lparr> boostCharge := boostCharge s - boostDecayRate s \<rparr>
         in if boostCharge s1 \<le> 0 \<or> \<not> key_space (keys s1)
            then s1\<lparr> boostCharge := max 0 (boostCharge s1), isBoosting := False \<rparr>
            else s1))"

definition update_position :: "Spaceship \<Rightarrow> Spaceship" where
  "update_position s =
     (let currentSpeed = (if isBoosting s then speed s + boostSpeed s else speed s)
      in s\<lparr> posX := posX s + cos (rotation s) * currentSpeed,
            posY := posY s + sin (rotation s) * currentSpeed \<rparr>)"

definition Spaceship_update :: "Spaceship \<Rightarrow> Spaceship" where
  "Spaceship_update s = update_position (update_boost (update_speed (update_rotation s)))"

definition getBoostPercentage :: "Spaceship \<Rightarrow> real" where
  "getBoostPercentage s = (boostCharge s / maxBoostCharge s) * 100"

subsection \<open>Random numbers\<close>

text \<open>
  \<^verbatim>\<open>Math.random\<close> reads a hidden generator. The generator is made explicit: an
  infinite sequence of draws and the position of the next one. Every function that
  draws takes the generator and returns it advanced.
\<close>

type_synonym rng = "(nat \<Rightarrow> real) \<times> nat"

definition Math_random :: "rng \<Rightarrow> real \<times> rng" where
  "Math_random g = (fst g (snd g), (fst g, Suc (snd g)))"

definition randomInt :: "real \<Rightarrow> real \<Rightarrow> rng \<Rightarrow> real \<times> rng" where
  "randomInt lo hi g =
     (let (r, g1) = Math_random g
      in (of_int \<lfloor>r * (hi - lo + 1)\<rfloor> + lo, g1))"

text \<open>
  \<^verbatim>\<open>randomColor\<close> builds the text \<^verbatim>\<open>rgb(r, g, b)\<close>; the three components are
  kept instead of the text.
\<close>

datatype Color = RGB real real real

definition randomColor :: "rng \<Rightarrow> Color \<times> rng" where
  "randomColor g =
     (let (r, g1) = randomInt 0 255 g;
          (gr, g2) = randomInt 0 255 g1;
          (b, g3) = randomInt 0 255 g2
      in (RGB r gr b, g3))"

record Star =
  star_x :: real
  star_y :: real
  star_size :: real

fun createStars :: "real \<Rightarrow> real \<Rightarrow> nat \<Rightarrow> rng \<Rightarrow> Star list \<times> rng" where
  "createStars w h 0 g = ([], g)"
| "createStars w h (Suc n) g =
     (let (sx, g1) = randomInt 0 w g;
          (sy, g2) = randomInt 0 h g1;
          (r, g3) = Math_random g2;
          (rest, g4) = createStars w h n g3
      in (\<lparr> star_x = sx, star_y = sy, star_size = r * 2 + 1 / 2 \<rparr> # rest, g4))"

subsection \<open>Planets (\<^verbatim>\<open>planet.js\<close>)\<close>

definition PLANET_NAMES :: "string list" where
  "PLANET_NAMES =
     [''Xenon'', ''Nebuloria'', ''Astralus'', ''Celestis'', ''Novastella'',
      ''Quasaria'', ''Lunaris'', ''Pulsaria'', ''Graviton'', ''Solaris'']"

text \<open>Only the opening words of each description are kept.\<close>

definition PLANET_DESCRIPTIONS :: "string list" where
  "PLANET_DESCRIPTIONS =
     [''A gas giant with swirling storms'', ''A rocky planet with vast oceans'',
      ''A desert world with massive canyons'', ''An ice planet with frozen methane lakes'',
      ''A volcanic world with rivers of molten lava'', ''A lush jungle planet'',
      ''A ringed planet'', ''A planet with a highly eccentric orbit'',
      ''A planet with low gravity and floating islands'',
      ''A world shrouded in perpetual mist'']"

text \<open>
  An array read. Out of range JavaScript yields \<^verbatim>\<open>undefined\<close>, which the template
  literals that use a planet's name print as the text \<^verbatim>\<open>undefined\<close>.
\<close>

definition arrayGet :: "string list \<Rightarrow> real \<Rightarrow> string" where
  "arrayGet xs i =
     (if 0 \<le> i \<and> i < real (length xs) \<and> of_int \<lfloor>i\<rfloor> = i then xs ! nat \<lfloor>i\<rfloor> else ''undefined'')"

record Feature =
  feature_size :: real
  feature_angle :: real
  feature_distance :: real
  feature_color :: Color

record Planet = Circle +
  color :: Color
  name :: string
  description :: string
  ringColor :: Color
  ringSize :: real
  hasRings :: bool
  features :: "Feature list"

text \<open>The loop \<^verbatim>\<open>for (i = 0; i < featureCount; i++)\<close> of the constructor.\<close>

function makeFeatures :: "real \<Rightarrow> nat \<Rightarrow> real \<Rightarrow> rng \<Rightarrow> Feature list \<times> rng" where
  "makeFeatures r i featureCount g =
     (if real i < featureCount then
        (let (a, g1) = Math_random g;
             (b, g2) = Math_random g1;
             (c, g3) = Math_random g2;
             (col, g4) = randomColor g3;
             (rest, g5) = makeFeatures r (Suc i) featureCount g4
         in (\<lparr> feature_size = r * (1 / 10 + a * (2 / 10)),
                feature_angle = b * pi * 2,
                feature_distance = r * (3 / 10 + c * (5 / 10)),
                feature_color = col \<rparr> # rest, g5))
      else ([], g))"
  by pat_completeness auto
termination
  by (relation "measure (\<lambda>(r, i, featureCount, g). nat \<lceil>featureCount\<rceil> - i)") (auto, linarith)

definition Planet_new :: "real \<Rightarrow> real \<Rightarrow> real \<Rightarrow> Color option \<Rightarrow> rng \<Rightarrow> Planet \<times> rng" where
  "Planet_new x0 y0 r col g =
     (let (c, g1) = (case col of Some c \<Rightarrow> (c, g) | None \<Rightarrow> randomColor g);
          (ni, g2) = randomInt 0 (real (length PLANET_NAMES) - 1) g1;
          (di, g3) = randomInt 0 (real (length PLANET_DESCRIPTIONS) - 1) g2;
          (rc, g4) = randomColor g3;
          (rs, g5) = Math_random g4;
          (hr, g6) = Math_random g5;
          (featureCount, g7) = randomInt 2 5 g6;
          (fs, g8) = makeFeatures r 0 featureCount g7
      in (\<lparr> posX = x0, posY = y0, radius = r,
            color = c, name = arrayGet PLANET_NAMES ni,
            description = arrayGet PLANET_DESCRIPTIONS di,
            ringColor = rc, ringSize = r * (12 / 10 + rs * (3 / 10)),
            hasRings = (hr > 1 / 2), features = fs \<rparr>, g8))"

subsection \<open>The entity registry (\<^verbatim>\<open>EntityManager.js\<close>)\<close>

record EntityManager =
  spaceships :: "Spaceship list"
  planets :: "Planet list"

definition EntityManager_new :: EntityManager where
  "EntityManager_new = \<lparr> spaceships = [], planets = [] \<rparr>"

definition addSpaceship :: "Spaceship \<Rightarrow> EntityManager \<Rightarrow> EntityManager" where
  "addSpaceship ship em = em\<lparr> spaceships := spaceships em @ [ship] \<rparr>"

definition addPlanet :: "Planet \<Rightarrow> EntityManager \<Rightarrow> EntityManager" where
  "addPlanet planet em = em\<lparr> planets := planets em @ [planet] \<rparr>"

text \<open>\<^verbatim>\<open>this.spaceships[0]\<close>, which is \<^verbatim>\<open>undefined\<close> for an empty array.\<close>

definition getPlayerShip :: "EntityManager \<Rightarrow> Spaceship option" where
  "getPlayerShip em = (case spaceships em of [] \<Rightarrow> None | ship # _ \<Rightarrow> Some ship)"

text \<open>
  The callers hold the player ship by reference; a write through that reference is a
  write to the first entry of the array.
\<close>

definition withPlayerShip :: "(Spaceship \<Rightarrow> Spaceship) \<Rightarrow> EntityManager \<Rightarrow> EntityManager" where
  "withPlayerShip f em =
     (case spaceships em of [] \<Rightarrow> em | ship # rest \<Rightarrow> em\<lparr> spaceships := f ship # rest \<rparr>)"

definition getAllPlanets :: "EntityManager \<Rightarrow> Planet list" where
  "getAllPlanets em = planets em"

definition getAllSpaceships :: "EntityManager \<Rightarrow> Spaceship list" where
  "getAllSpaceships em = spaceships em"

text \<open>
  \<^verbatim>\<open>Math.atan2(y, x)\<close> on real numbers (no signed zeros): the angle of the point
  \<open>(x, y)\<close> in \<open>(-\<pi>, \<pi>]\<close>, and 0 at the origin.
\<close>

definition atan2 :: "real \<Rightarrow> real \<Rightarrow> real" where
  "atan2 y x =
     (if x > 0 then arctan (y / x)
      else if x < 0 then (if y \<ge> 0 then arctan (y / x) + pi else arctan (y / x) - pi)
      else if y > 0 then pi / 2
      else if y < 0 then - (pi / 2)
      else 0)"

text \<open>
  The body of the inner loop of \<^verbatim>\<open>EntityManager.update\<close>: one ship against one
  planet. \<^verbatim>\<open>ship.radius || 5\<close> is 5 when the radius is 0.
\<close>

definition collisionThreshold :: "Spaceship \<Rightarrow> Planet \<Rightarrow> real" where
  "collisionThreshold ship planet = radius planet + (if radius ship \<noteq> 0 then radius ship else 5)"

definition collide :: "Spaceship \<Rightarrow> Planet \<Rightarrow> Spaceship" where
  "collide ship planet =
     (let dx = posX ship - posX planet;
          dy = posY ship - posY planet;
          dist = sqrt (dx * dx + dy * dy)
      in if dist < collisionThreshold ship planet then
           (let angleToPlanet = atan2 dy dx;
                overlap = collisionThreshold ship planet - dist;
                ship1 = ship\<lparr> posX := posX ship + cos angleToPlanet * overlap * (1 / 10) \<rparr>
            in ship1\<lparr> posY := posY ship1 + sin angleToPlanet * overlap * (1 / 10) \<rparr>)
         else ship)"

definition EntityManager_update :: "real \<Rightarrow> real \<Rightarrow> real \<Rightarrow> EntityManager \<Rightarrow> EntityManager" where
  "EntityManager_update deltaTime worldW worldH em =
     em\<lparr> spaceships := map (\<lambda>ship. foldl collide (Spaceship_update ship) (planets em)) (spaceships em) \<rparr>"


subsection \<open>The registry step in double arithmetic\<close>














subsection \<open>Timers, callbacks and the user interface (\<^verbatim>\<open>ui.js\<close>)\<close>

text \<open>
  A function value is represented by the data it closes over. \<open>LeavePlanet p\<close> is the
  callback that \<^verbatim>\<open>InteractionSystem.update\<close> hands to \<^verbatim>\<open>showPlanetInfo\<close>;
  \<open>ShowPlanetInfoLater p\<close> is the function it passes to \<^verbatim>\<open>setTimeout\<close>;
  \<open>ClearMessageLater\<close> is the one \<^verbatim>\<open>showMessage\<close> passes to \<^verbatim>\<open>setTimeout\<close>.
\<close>

datatype Callback = LeavePlanet Planet

datatype TimerAction = ClearMessageLater | ShowPlanetInfoLater Planet

record Timer =
  timer_id :: nat
  timer_delay :: real
  timer_action :: TimerAction

record UI =
  isPlanetViewActive :: bool
  messageTimeout :: "nat option"
  overlayHidden :: bool
  planetInfoVisible :: bool
  planetNameText :: string
  planetDescriptionText :: string
  messageText :: string
  messageActive :: bool
  onLeaveCallback :: "Callback option"
  boostFillWidth :: real
  boostFillColor :: string

definition UI_new :: UI where
  "UI_new =
     \<lparr> isPlanetViewActive = False, messageTimeout = None, overlayHidden = True,
       planetInfoVisible = False, planetNameText = [], planetDescriptionText = [],
       messageText = [], messageActive = False, onLeaveCallback = None,
       boostFillWidth = 0, boostFillColor = ''#4dacff'' \<rparr>"

datatype LogArg = S string | N real

datatype LogEntry = ConsoleLog "LogArg list" | ConsoleWarn "LogArg list" | ConsoleError "LogArg list"

datatype DrawOp =
    FillRect real real real real string
  | StrokeRect real real real real string
  | FillArc real real real Color
  | DrawPlanet Planet real real
  | DrawShip Spaceship real real

subsection \<open>The game (\<^verbatim>\<open>game.js\<close>, state machine version)\<close>

text \<open>
  One record holds the game object and what it reaches: the registry, the user
  interface, the pending timers of the window, the console and the canvas. The
  canvas holds the drawing operations of the last frame.
\<close>

record Game =
  config_speedScale :: real
  canvasWidth :: real
  canvasHeight :: real
  baseShipWidth :: real
  baseShipHeight :: real
  ui :: UI
  entityManager :: EntityManager
  worldWidth :: real
  worldHeight :: real
  stars :: "Star list"
  cameraX :: real
  cameraY :: real
  gameState :: string
  lastTime :: real
  timers :: "Timer list"
  nextTimerId :: nat
  console :: "LogEntry list"
  canvas :: "DrawOp list"

text \<open>\<^verbatim>\<open>setTimeout\<close> hands out the positive identifiers 1, 2, ... in turn.\<close>

definition setTimeout :: "TimerAction \<Rightarrow> real \<Rightarrow> Game \<Rightarrow> nat \<times> Game" where
  "setTimeout act delay g =
     (nextTimerId g,
      g\<lparr> timers := timers g @ [\<lparr> timer_id = nextTimerId g, timer_delay = delay, timer_action = act \<rparr>],
         nextTimerId := Suc (nextTimerId g) \<rparr>)"

definition clearTimeout :: "nat \<Rightarrow> Game \<Rightarrow> Game" where
  "clearTimeout i g = g\<lparr> timers := filter (\<lambda>t. timer_id t \<noteq> i) (timers g) \<rparr>"

text \<open>\<^verbatim>\<open>if (this.messageTimeout)\<close>: a timer identifier other than 0.\<close>

definition cancelMessageTimeout :: "Game \<Rightarrow> Game" where
  "cancelMessageTimeout g =
     (case messageTimeout (ui g) of
        None \<Rightarrow> g
      | Some i \<Rightarrow> if i \<noteq> 0 then (clearTimeout i g)\<lparr> ui := (ui g)\<lparr> messageTimeout := None \<rparr> \<rparr> else g)"

definition UI_clearMessage :: "Game \<Rightarrow> Game" where
  "UI_clearMessage g = cancelMessageTimeout (g\<lparr> ui := (ui g)\<lparr> messageActive := False \<rparr> \<rparr>)"

definition UI_showMessage :: "string \<Rightarrow> real \<Rightarrow> Game \<Rightarrow> Game" where
  "UI_showMessage message duration g =
     (let g1 = cancelMessageTimeout g;
          g2 = g1\<lparr> ui := (ui g1)\<lparr> messageText := message, messageActive := True \<rparr> \<rparr>
      in if duration > 0 then
           (let (i, g3) = setTimeout ClearMessageLater duration g2
            in g3\<lparr> ui := (ui g3)\<lparr> messageTimeout := Some i \<rparr> \<rparr>)
         else g2)"

text \<open>
  Modelled from the spec: \<^verbatim>\<open>UI.getCurrentMessage\<close> is called by
  \<^verbatim>\<open>InteractionSystem.update\<close> and defined nowhere in the sources. The specification
  speaks of the last emitted message; that is the text \<^verbatim>\<open>showMessage\<close> wrote
  into the message display.
\<close>

definition getCurrentMessage :: "UI \<Rightarrow> string" where
  "getCurrentMessage u = messageText u"

definition UI_showPlanetInfo :: "Planet \<Rightarrow> Callback \<Rightarrow> Game \<Rightarrow> Game" where
  "UI_showPlanetInfo planet onLeave g =
     UI_clearMessage
       (g\<lparr> ui := (ui g)\<lparr> isPlanetViewActive := True,
                         planetNameText := name planet,
                         planetDescriptionText := description planet,
                         overlayHidden := False,
                         planetInfoVisible := True,
                         onLeaveCallback := Some onLeave \<rparr> \<rparr>)"

definition updateBoostMeter :: "real \<Rightarrow> UI \<Rightarrow> UI" where
  "updateBoostMeter percentage u =
     u\<lparr> boostFillWidth := percentage,
        boostFillColor := (if percentage > 70 then ''#4dff4d''
                           else if percentage > 30 then ''#4dacff''
                           else ''#ff4d4d'') \<rparr>"

definition isPlanetView :: "UI \<Rightarrow> bool" where
  "isPlanetView u = isPlanetViewActive u"

text \<open>
  The object \<^verbatim>\<open>GameState\<close> is an object literal, so a property read that finds no
  own property goes on to \<^verbatim>\<open>Object.prototype\<close>.
\<close>

datatype JSValue = Undefined | StringValue string | FunctionValue string | ObjectValue string

definition GameState :: "(string \<times> JSValue) list" where
  "GameState = [(''FLYING'', StringValue ''FLYING''), (''PLANET_VIEW'', StringValue ''PLANET_VIEW'')]"

definition Object_prototype :: "(string \<times> JSValue) list" where
  "Object_prototype =
     [(''constructor'', FunctionValue ''Object''),
      (''hasOwnProperty'', FunctionValue ''hasOwnProperty''),
      (''isPrototypeOf'', FunctionValue ''isPrototypeOf''),
      (''propertyIsEnumerable'', FunctionValue ''propertyIsEnumerable''),
      (''toLocaleString'', FunctionValue ''toLocaleString''),
      (''toString'', FunctionValue ''toString''),
      (''valueOf'', FunctionValue ''valueOf''),
      (''__proto__'', ObjectValue ''Object.prototype''),
      (''__defineGetter__'', FunctionValue ''__defineGetter__''),
      (''__defineSetter__'', FunctionValue ''__defineSetter__''),
      (''__lookupGetter__'', FunctionValue ''__lookupGetter__''),
      (''__lookupSetter__'', FunctionValue ''__lookupSetter__'')]"

definition getProperty :: "(string \<times> JSValue) list \<Rightarrow> string \<Rightarrow> JSValue" where
  "getProperty obj k =
     (case map_of obj k of
        Some v \<Rightarrow> v
      | None \<Rightarrow> (case map_of Object_prototype k of Some v \<Rightarrow> v | None \<Rightarrow> Undefined))"

fun truthy :: "JSValue \<Rightarrow> bool" where
  "truthy Undefined = False"
| "truthy (StringValue str) = (str \<noteq> [])"
| "truthy (FunctionValue f) = True"
| "truthy (ObjectValue ob) = True"

text \<open>The values of \<^verbatim>\<open>GameState.FLYING\<close> and \<^verbatim>\<open>GameState.PLANET_VIEW\<close>.\<close>

definition FLYING :: string where
  "FLYING = ''FLYING''"

definition PLANET_VIEW :: string where
  "PLANET_VIEW = ''PLANET_VIEW''"

definition Game_setGameState :: "string \<Rightarrow> Game \<Rightarrow> Game" where
  "Game_setGameState newState g =
     (if truthy (getProperty GameState newState) then
        g\<lparr> gameState := newState,
           console := console g @ [ConsoleLog [S (''Game state changed to: '' @ newState)]] \<rparr>
      else
        g\<lparr> console := console g @ [ConsoleError [S (''Attempted to set invalid game state: '' @ newState)]] \<rparr>)"

definition Game_setGameSpeed :: "real \<Rightarrow> Game \<Rightarrow> Game" where
  "Game_setGameSpeed scale g =
     g\<lparr> config_speedScale := scale,
        entityManager := withPlayerShip (setSpeedScale scale) (entityManager g) \<rparr>"

definition resizeCanvas :: "real \<Rightarrow> real \<Rightarrow> Game \<Rightarrow> Game" where
  "resizeCanvas innerWidth innerHeight g = g\<lparr> canvasWidth := innerWidth, canvasHeight := innerHeight \<rparr>"

text \<open>
  Every ship registers its own key listeners on the window, so a key event reaches
  every ship of the registry.
\<close>

definition window_keydown :: "string \<Rightarrow> Game \<Rightarrow> Game" where
  "window_keydown k g =
     g\<lparr> entityManager := (entityManager g)\<lparr> spaceships := map (handleKeyDown k) (spaceships (entityManager g)) \<rparr> \<rparr>"

definition window_keyup :: "string \<Rightarrow> Game \<Rightarrow> Game" where
  "window_keyup k g =
     g\<lparr> entityManager := (entityManager g)\<lparr> spaceships := map (handleKeyUp k) (spaceships (entityManager g)) \<rparr> \<rparr>"

text \<open>
  Running a callback. The closure \<open>LeavePlanet p\<close> holds the player ship it was
  created for by reference; ships are never removed from the registry, so that ship
  is still the first one.
\<close>

fun runCallback :: "Callback \<Rightarrow> Game \<Rightarrow> Game" where
  "runCallback (LeavePlanet hoveredPlanet) g =
     (let g1 = Game_setGameState FLYING g;
          g2 = g1\<lparr> entityManager :=
                     withPlayerShip (\<lambda>ship. ship\<lparr> keys := (keys ship)\<lparr> key_e := False \<rparr> \<rparr>) (entityManager g1) \<rparr>
      in UI_showMessage (''Left '' @ name hoveredPlanet) 3000 g2)"

definition UI_hidePlanetInfo :: "Game \<Rightarrow> Game" where
  "UI_hidePlanetInfo g =
     (let g1 = g\<lparr> ui := (ui g)\<lparr> isPlanetViewActive := False, planetInfoVisible := False \<rparr> \<rparr>
      in case onLeaveCallback (ui g1) of
           None \<Rightarrow> g1
         | Some cb \<Rightarrow> (let g2 = runCallback cb g1 in g2\<lparr> ui := (ui g2)\<lparr> onLeaveCallback := None \<rparr> \<rparr>))"

text \<open>A pending timer fires: it leaves the list and its function runs.\<close>

definition fireTimer :: "nat \<Rightarrow> Game \<Rightarrow> Game" where
  "fireTimer i g =
     (case find (\<lambda>t. timer_id t = i) (timers g) of
        None \<Rightarrow> g
      | Some t \<Rightarrow>
          (let g1 = g\<lparr> timers := filter (\<lambda>t. timer_id t \<noteq> i) (timers g) \<rparr>
           in case timer_action t of
                ClearMessageLater \<Rightarrow> UI_clearMessage g1
              | ShowPlanetInfoLater planet \<Rightarrow> UI_showPlanetInfo planet (LeavePlanet planet) g1))"

subsection \<open>The interaction protocol (\<^verbatim>\<open>InteractionSystem.js\<close>)\<close>

fun startsWith :: "string \<Rightarrow> string \<Rightarrow> bool" where
  "startsWith str [] = True"
| "startsWith [] (c # cs) = False"
| "startsWith (b # bs) (c # cs) = (b = c \<and> startsWith bs cs)"

text \<open>\<^verbatim>\<open>String.prototype.includes\<close>: the text occurs somewhere in the string.\<close>

fun String_includes :: "string \<Rightarrow> string \<Rightarrow> bool" where
  "String_includes [] sub = (sub = [])"
| "String_includes (b # bs) sub = (startsWith (b # bs) sub \<or> String_includes bs sub)"

text \<open>The loop over the planets that stops at the first collision.\<close>

fun findHovered :: "Spaceship \<Rightarrow> Planet list \<Rightarrow> Planet option" where
  "findHovered playerShip [] = None"
| "findHovered playerShip (planet # rest) =
     (if checkCollision playerShip planet then Some planet else findHovered playerShip rest)"

definition canLand :: "Spaceship \<Rightarrow> bool" where
  "canLand playerShip =
     (let speedThreshold = maxSpeed playerShip * (1 / 2)
      in \<bar>speed playerShip\<bar> < speedThreshold)"

definition InteractionSystem_update :: "real \<Rightarrow> Game \<Rightarrow> Game" where
  "InteractionSystem_update deltaTime g =
     (if gameState g \<noteq> FLYING then g
      else case getPlayerShip (entityManager g) of
        None \<Rightarrow> g
      | Some playerShip \<Rightarrow>
          (case findHovered playerShip (getAllPlanets (entityManager g)) of
             Some hoveredPlanet \<Rightarrow>
               (let g1 = (if canLand playerShip
                          then UI_showMessage (''Press E to land on '' @ name hoveredPlanet) 0 g
                          else UI_showMessage (''Slow down to land on '' @ name hoveredPlanet) 0 g)
                in if key_e (keys playerShip) \<and> canLand playerShip then
                     (let g2 = Game_setGameState PLANET_VIEW g1;
                          g3 = g2\<lparr> entityManager :=
                                     withPlayerShip (\<lambda>ship. ship\<lparr> keys := (keys ship)\<lparr> key_e := False \<rparr> \<rparr>)
                                       (entityManager g2) \<rparr>
                      in snd (setTimeout (ShowPlanetInfoLater hoveredPlanet) 100 g3))
                   else g1)
           | None \<Rightarrow>
               (if String_includes (getCurrentMessage (ui g)) ''Press E''
                   \<or> String_includes (getCurrentMessage (ui g)) ''Slow down''
                then UI_clearMessage g else g)))"

subsection \<open>The frame loop\<close>

text \<open>
  The end of \<^verbatim>\<open>Game.update\<close>: the camera follows the player ship, the ship is kept
  inside the world, the boost meter is refreshed. \<^verbatim>\<open>Game.update\<close> gets here only
  with a player ship.
\<close>

definition follow_player :: "Game \<Rightarrow> Game" where
  "follow_player g2 =
     (case spaceships (entityManager g2) of
        [] \<Rightarrow> g2
      | playerShip # _ \<Rightarrow>
          (let g3 = g2\<lparr> cameraX := posX playerShip - canvasWidth g2 / 2,
                        cameraY := posY playerShip - canvasHeight g2 / 2 \<rparr>;
               g4 = g3\<lparr> cameraX := clamp (cameraX g3) 0 (worldWidth g3 - canvasWidth g3),
                        cameraY := clamp (cameraY g3) 0 (worldHeight g3 - canvasHeight g3) \<rparr>;
               g5 = g4\<lparr> entityManager :=
                          withPlayerShip
                            (\<lambda>ship. ship\<lparr> posX := clamp (posX ship) 0 (worldWidth g4),
                                           posY := clamp (posY ship) 0 (worldHeight g4) \<rparr>)
                            (entityManager g4) \<rparr>
           in g5\<lparr> ui := updateBoostMeter (getBoostPercentage playerShip) (ui g5) \<rparr>))"

definition Game_update :: "real \<Rightarrow> Game \<Rightarrow> Game" where
  "Game_update deltaTime g =
     (let g1 = g\<lparr> entityManager :=
                   EntityManager_update deltaTime (worldWidth g) (worldHeight g) (entityManager g) \<rparr>
      in case getPlayerShip (entityManager g1) of
           None \<Rightarrow> g1
         | Some _ \<Rightarrow> follow_player (InteractionSystem_update deltaTime g1))"

definition EntityManager_render :: "EntityManager \<Rightarrow> real \<Rightarrow> real \<Rightarrow> DrawOp list" where
  "EntityManager_render em offsetX offsetY =
     map (\<lambda>planet. DrawPlanet planet offsetX offsetY) (planets em)
     @ map (\<lambda>ship. DrawShip ship offsetX offsetY) (spaceships em)"

definition drawStars :: "Game \<Rightarrow> DrawOp list" where
  "drawStars g =
     concat (map (\<lambda>star.
        (let screenX = star_x star - cameraX g; screenY = star_y star - cameraY g
         in if screenX \<ge> - 1 \<and> screenX \<le> canvasWidth g + 1
               \<and> screenY \<ge> - 1 \<and> screenY \<le> canvasHeight g + 1
            then [FillRect screenX screenY (star_size star) (star_size star) ''#ffffff'']
            else [])) (stars g))"

definition drawMinimap :: "Game \<Rightarrow> DrawOp list" where
  "drawMinimap g =
     (let minimapSize = 200;
          minimapX = canvasWidth g - minimapSize - 20;
          minimapY = 20;
          scale = minimapSize / max (worldWidth g) (worldHeight g)
      in [FillRect minimapX minimapY minimapSize minimapSize ''rgba(50, 50, 50, 0.7)'',
          StrokeRect minimapX minimapY minimapSize minimapSize ''#ffffff'']
         @ map (\<lambda>planet. FillArc (minimapX + posX planet * scale) (minimapY + posY planet * scale)
                               (max 1 (radius planet * scale)) (color planet))
               (getAllPlanets (entityManager g))
         @ (case getPlayerShip (entityManager g) of
              None \<Rightarrow> []
            | Some playerShip \<Rightarrow>
                [FillRect (minimapX + posX playerShip * scale - 2) (minimapY + posY playerShip * scale - 2)
                   4 4 ''#00ff00'']))"

definition Game_render :: "Game \<Rightarrow> Game" where
  "Game_render g =
     g\<lparr> canvas := [FillRect 0 0 (canvasWidth g) (canvasHeight g) ''#000000'']
                   @ drawStars g
                   @ EntityManager_render (entityManager g) (cameraX g) (cameraY g)
                   @ drawMinimap g \<rparr>"

text \<open>
  One frame. The request for the next frame at the end of \<^verbatim>\<open>gameLoop\<close> is the
  caller applying \<open>Game_gameLoop\<close> again.
\<close>

definition Game_gameLoop :: "real \<Rightarrow> Game \<Rightarrow> Game" where
  "Game_gameLoop timestamp g =
     (let g0 = g\<lparr> console := console g @ [ConsoleLog [S ''[Game.gameLoop] Frame: '', N timestamp]] \<rparr>;
          deltaTime = timestamp - lastTime g0;
          g1 = g0\<lparr> lastTime := timestamp \<rparr>;
          g2 = (if gameState g1 = FLYING then Game_update deltaTime g1 else g1)
      in Game_render g2)"

subsection \<open>World generation\<close>

definition maxAttempts :: nat where
  "maxAttempts = 50"

text \<open>The loop over the planets placed so far, left at the first conflict.\<close>

fun positionFree :: "real \<Rightarrow> real \<Rightarrow> real \<Rightarrow> Planet list \<Rightarrow> bool" where
  "positionFree x0 y0 r [] = True"
| "positionFree x0 y0 r (planet # rest) =
     (let dist = distance x0 y0 (posX planet) (posY planet);
          minDist = r + radius planet + 200
      in if dist < minDist then False else positionFree x0 y0 r rest)"

definition startPosition :: "Game \<Rightarrow> real \<times> real" where
  "startPosition g =
     (case getPlayerShip (entityManager g) of
        Some playerShip \<Rightarrow> (posX playerShip, posY playerShip)
      | None \<Rightarrow> (worldWidth g / 2, worldHeight g / 2))"

text \<open>The body of the \<^verbatim>\<open>while\<close> loop, without the attempt counter.\<close>

definition placement_attempt :: "Game \<Rightarrow> rng \<Rightarrow> bool \<times> real \<times> real \<times> real \<times> rng" where
  "placement_attempt g rg =
     (let (r, rg1) = randomInt 40 100 rg;
          (x0, rg2) = randomInt (r * 2) (worldWidth g - r * 2) rg1;
          (y0, rg3) = randomInt (r * 2) (worldHeight g - r * 2) rg2;
          validPosition = positionFree x0 y0 r (getAllPlanets (entityManager g));
          (startX, startY) = startPosition g;
          distToStart = distance x0 y0 startX startY
      in (if distToStart < 300 then False else validPosition, x0, y0, r, rg3))"

text \<open>
  The \<^verbatim>\<open>while\<close> loop. Its state is \<^verbatim>\<open>validPosition\<close>, \<^verbatim>\<open>x\<close>, \<^verbatim>\<open>y\<close>,
  \<^verbatim>\<open>radius\<close>, \<^verbatim>\<open>attempts\<close> and the generator.
\<close>

function placement_loop ::
  "Game \<Rightarrow> bool \<times> real \<times> real \<times> real \<times> nat \<times> rng \<Rightarrow> bool \<times> real \<times> real \<times> real \<times> nat \<times> rng" where
  "placement_loop g (validPosition, x0, y0, r, attempts, rg) =
     (if \<not> validPosition \<and> attempts < maxAttempts then
        (case placement_attempt g rg of
           (v1, x1, y1, r1, rg1) \<Rightarrow> placement_loop g (v1, x1, y1, r1, Suc attempts, rg1))
      else (validPosition, x0, y0, r, attempts, rg))"
  by pat_completeness auto
termination
  by (relation "measure (\<lambda>(g, v, x0, y0, r, attempts, rg). maxAttempts - attempts)") auto

text \<open>The arguments of the \<^verbatim>\<open>console.warn\<close> call for a slot that found no position.\<close>

definition placement_warning :: LogEntry where
  "placement_warning =
     ConsoleWarn [S ''Could not find valid position for planet after'', N (real maxAttempts), S ''attempts.'']"

text \<open>
  The body of the \<^verbatim>\<open>for\<close> loop. \<^verbatim>\<open>x\<close>, \<^verbatim>\<open>y\<close> and \<^verbatim>\<open>radius\<close> are declared
  without a value and are read only after the loop assigned them; they start as 0
  here. \<^verbatim>\<open>currentPlanets\<close> is the array \<^verbatim>\<open>getAllPlanets\<close> returned, which is the
  registry's own array: \<^verbatim>\<open>addPlanet\<close> and \<^verbatim>\<open>currentPlanets.push\<close> both append to it.
\<close>

definition place_planet :: "Game \<Rightarrow> rng \<Rightarrow> Game \<times> rng" where
  "place_planet g rg =
     (case placement_loop g (False, 0, 0, 0, 0, rg) of
        (validPosition, x0, y0, r, attempts, rg1) \<Rightarrow>
          if validPosition then
            (let (newPlanet, rg2) = Planet_new x0 y0 r None rg1;
                 em1 = addPlanet newPlanet (entityManager g);
                 em2 = em1\<lparr> planets := planets em1 @ [newPlanet] \<rparr>
             in (g\<lparr> entityManager := em2 \<rparr>, rg2))
          else
            (g\<lparr> console := console g @ [placement_warning] \<rparr>, rg1))"

function place_planets :: "nat \<Rightarrow> real \<Rightarrow> Game \<Rightarrow> rng \<Rightarrow> Game \<times> rng" where
  "place_planets i numPlanets g rg =
     (if real i < numPlanets then
        (case place_planet g rg of (g1, rg1) \<Rightarrow> place_planets (Suc i) numPlanets g1 rg1)
      else (g, rg))"
  by pat_completeness auto
termination
  by (relation "measure (\<lambda>(i, numPlanets, g, rg). nat \<lceil>numPlanets\<rceil> - i)") (auto, linarith)

definition Game_generateWorld :: "Game \<Rightarrow> rng \<Rightarrow> Game \<times> rng" where
  "Game_generateWorld g rg =
     (let (sts, rg1) = createStars (worldWidth g) (worldHeight g) 200 rg;
          g1 = g\<lparr> stars := sts \<rparr>;
          (numPlanets, rg2) = randomInt 8 12 rg1
      in place_planets 0 numPlanets g1 rg2)"

text \<open>
  What the loop requires of a position: the required spacing to every planet of the
  registry, and the required distance from the start position.
\<close>

definition valid_position :: "Game \<Rightarrow> real \<Rightarrow> real \<Rightarrow> real \<Rightarrow> bool" where
  "valid_position g x0 y0 r \<longleftrightarrow>
     (\<forall>planet \<in> set (planets (entityManager g)).
        r + radius planet + 200 \<le> distance x0 y0 (posX planet) (posY planet))
     \<and> 300 \<le> distance x0 y0 (fst (startPosition g)) (snd (startPosition g))"

definition separated :: "Planet list \<Rightarrow> bool" where
  "separated ps \<longleftrightarrow>
     (\<forall>p \<in> set ps. \<forall>q \<in> set ps. p \<noteq> q \<longrightarrow>
        radius p + radius q + 200 \<le> distance (posX p) (posY p) (posX q) (posY q))"

definition clear_of_start :: "real \<times> real \<Rightarrow> Planet list \<Rightarrow> bool" where
  "clear_of_start start ps \<longleftrightarrow>
     (\<forall>p \<in> set ps. 300 \<le> distance (posX p) (posY p) (fst start) (snd start))"

definition spaced :: "Game \<Rightarrow> bool" where
  "spaced g \<longleftrightarrow>
     separated (planets (entityManager g)) \<and> clear_of_start (startPosition g) (planets (entityManager g))"

text \<open>
  A game before world generation, with the player ship at the centre of the world,
  and a sequence of draws: 0 up to the first placement attempt, a quarter from then on.
\<close>

definition empty_world :: Game where
  "empty_world =
     \<lparr> config_speedScale = 3 / 10, canvasWidth = 800, canvasHeight = 600,
       baseShipWidth = 42, baseShipHeight = 21, ui = UI_new,
       entityManager = addSpaceship (Spaceship_new 2500 2500 (3 / 10) 42 21) EntityManager_new,
       worldWidth = 5000, worldHeight = 5000, stars = [],
       cameraX = 0, cameraY = 0, gameState = FLYING, lastTime = 0,
       timers = [], nextTimerId = 1, console = [], canvas = [] \<rparr>"

definition demo_draws :: "nat \<Rightarrow> real" where
  "demo_draws n = (if n \<le> 603 then 0 else 1 / 4)"

text \<open>
  With every draw one half, each attempt proposes the centre of the world, where the
  player ship is.
\<close>

definition half_draws :: "nat \<Rightarrow> real" where
  "half_draws n = 1 / 2"

text \<open>The planets that the first two slots place with these draws.\<close>

definition first_planet :: Planet where
  "first_planet = fst (Planet_new 80 80 40 None (demo_draws, 604))"

definition second_planet :: Planet where
  "second_planet = fst (Planet_new 1305 1305 55 None (demo_draws, 636))"

subsection \<open>Construction of the game\<close>

text \<open>
  The constructor up to the world generation and the reading of the clock. The
  arguments are the option \<^verbatim>\<open>speedScale\<close>, the size of the window, the value of
  the size slider and the clock. \<^verbatim>\<open>options.speedScale || 0.3\<close> is 0.3 when the
  option is absent or 0.
\<close>

definition Game_new :: "real option \<Rightarrow> real \<Rightarrow> real \<Rightarrow> real \<Rightarrow> real \<Rightarrow> rng \<Rightarrow> Game \<times> rng" where
  "Game_new optSpeedScale innerWidth innerHeight initialSizeScale now rg =
     (let cfg = (case optSpeedScale of Some v \<Rightarrow> if v \<noteq> 0 then v else 3 / 10 | None \<Rightarrow> 3 / 10);
          playerShip = Spaceship_new (5000 / 2) (5000 / 2) cfg (42 * initialSizeScale) (21 * initialSizeScale);
          g = \<lparr> config_speedScale = cfg, canvasWidth = innerWidth, canvasHeight = innerHeight,
                baseShipWidth = 42, baseShipHeight = 21, ui = UI_new,
                entityManager = addSpaceship playerShip EntityManager_new,
                worldWidth = 5000, worldHeight = 5000, stars = [],
                cameraX = 0, cameraY = 0, gameState = FLYING, lastTime = 0,
                timers = [], nextTimerId = 1, console = [], canvas = [] \<rparr>;
          (g1, rg1) = Game_generateWorld g rg
      in (g1\<lparr> lastTime := now \<rparr>, rg1))"

subsection \<open>Events between frames\<close>

datatype WindowEvent = KeyDown string | KeyUp string | AnimationFrame real

fun window_event :: "Game \<Rightarrow> WindowEvent \<Rightarrow> Game" where
  "window_event g (KeyDown k) = window_keydown k g"
| "window_event g (KeyUp k) = window_keyup k g"
| "window_event g (AnimationFrame timestamp) = Game_gameLoop timestamp g"

text \<open>The value of \<^verbatim>\<open>keys.e\<close> of the player ship.\<close>

definition interact_held :: "Game \<Rightarrow> bool" where
  "interact_held g = (case getPlayerShip (entityManager g) of None \<Rightarrow> False | Some ship \<Rightarrow> key_e (keys ship))"

subsection \<open>The messages of the specification\<close>



subsection \<open>A small world\<close>

text \<open>One planet, and a game with one ship, in the state the constructor leaves.\<close>

definition demo_planet :: Planet where
  "demo_planet =
     \<lparr> posX = 1000, posY = 1000, radius = 60, color = RGB 10 20 30, name = ''Xenon'',
       description = ''A gas giant with swirling storms'', ringColor = RGB 1 2 3, ringSize = 80,
       hasRings = False, features = [] \<rparr>"

definition demo_game :: "Spaceship \<Rightarrow> Game" where
  "demo_game ship =
     \<lparr> config_speedScale = 1, canvasWidth = 800, canvasHeight = 600,
       baseShipWidth = 42, baseShipHeight = 21, ui = UI_new,
       entityManager = \<lparr> spaceships = [ship], planets = [demo_planet] \<rparr>,
       worldWidth = 5000, worldHeight = 5000, stars = [],
       cameraX = 0, cameraY = 0, gameState = FLYING, lastTime = 0,
       timers = [], nextTimerId = 1, console = [], canvas = [] \<rparr>"

text \<open>
  The planet view is open for planet \<open>p\<close>: the state is \<^verbatim>\<open>PLANET_VIEW\<close>, the leave
  callback for \<open>p\<close> is stored, and the player ship is in the registry.
\<close>

definition modal :: "Planet \<Rightarrow> Game \<Rightarrow> bool" where
  "modal p g \<longleftrightarrow>
     gameState g = PLANET_VIEW \<and> onLeaveCallback (ui g) = Some (LeavePlanet p)
     \<and> spaceships (entityManager g) \<noteq> []"

text \<open>
  Between the landing frame and the panel: the state is \<^verbatim>\<open>PLANET_VIEW\<close> and the
  timer \<open>i\<close> that will show the panel for \<open>p\<close> is pending.
\<close>

definition landing_pending :: "Planet \<Rightarrow> nat \<Rightarrow> Game \<Rightarrow> bool" where
  "landing_pending p i g \<longleftrightarrow>
     gameState g = PLANET_VIEW \<and> spaceships (entityManager g) \<noteq> []
     \<and> (\<exists>ts. timers g = ts @ [\<lparr> timer_id = i, timer_delay = 100, timer_action = ShowPlanetInfoLater p \<rparr>]
            \<and> (\<forall>t \<in> set ts. timer_id t \<noteq> i))"

text \<open>
  What happens between the landing frame and the click on the leave button: key
  events and frames, the timer \<open>i\<close> fires, more key events and frames.
\<close>

definition modal_session :: "nat \<Rightarrow> WindowEvent list \<Rightarrow> WindowEvent list \<Rightarrow> Game \<Rightarrow> Game" where
  "modal_session i before after g = foldl window_event (fireTimer i (foldl window_event g before)) after"

text \<open>
  The player rests on the planet of the small world with the interact key held; one
  frame pushes the ship out by a tenth of the overlap and lands. Then the window is
  resized.
\<close>

definition e_ship :: Spaceship where
  "e_ship = handleKeyDown ''e'' (Spaceship_new 1000 1000 1 42 21)"

definition e_ship_pushed :: Spaceship where
  "e_ship_pushed = (Spaceship_update e_ship)\<lparr> posX := 10081 / 10 \<rparr>"

definition landed_game :: Game where
  "landed_game = Game_gameLoop 16 (demo_game e_ship)"


definition landed_then_resized :: Game where
  "landed_then_resized = resizeCanvas 1000 800 landed_game"




subsection \<open>Predicates on ship states\<close>

text \<open>
  The constructor assigns the boost parameters once (maximum charge 100, charge rate
  0.5, decay rate 2) and no method writes them again. The properties need of them
  only their signs.
\<close>

definition boost_parameters :: "Spaceship \<Rightarrow> bool" where
  "boost_parameters ship \<longleftrightarrow>
     0 < maxBoostCharge ship \<and> 0 \<le> boostChargeRate ship \<and> 0 \<le> boostDecayRate ship"

text \<open>
  The ship states reached from the constructor by the operations of the program:
  key events, the two sliders, the step, and the writes to the position by the
  collision correction and the world clamp. A change of the speed scale is admitted
  here only when the new maximum speed is not below the current speed.
\<close>

inductive reachable :: "Spaceship \<Rightarrow> bool" where
  reachable_new: "0 \<le> scale \<Longrightarrow> reachable (Spaceship_new x0 y0 scale w h)"
| reachable_keydown: "reachable ship \<Longrightarrow> reachable (handleKeyDown k ship)"
| reachable_keyup: "reachable ship \<Longrightarrow> reachable (handleKeyUp k ship)"
| reachable_setSize: "reachable ship \<Longrightarrow> reachable (setSize w h ship)"
| reachable_setSpeedScale:
    "reachable ship \<Longrightarrow> \<bar>speed ship\<bar> \<le> baseMaxSpeed ship * scale \<Longrightarrow> reachable (setSpeedScale scale ship)"
| reachable_update: "reachable ship \<Longrightarrow> reachable (Spaceship_update ship)"
| reachable_moved: "reachable ship \<Longrightarrow> reachable (ship\<lparr> posX := x1, posY := y1 \<rparr>)"

definition speed_invariant :: "Spaceship \<Rightarrow> bool" where
  "speed_invariant ship \<longleftrightarrow>
     baseMaxSpeed ship = 5 \<and> baseAcceleration ship = 1 / 10 \<and> baseDeceleration ship = 5 / 100
     \<and> maxSpeed ship = baseMaxSpeed ship * speedScale ship
     \<and> acceleration ship = baseAcceleration ship * speedScale ship
     \<and> deceleration ship = baseDeceleration ship * speedScale ship
     \<and> \<bar>speed ship\<bar> \<le> maxSpeed ship"

text \<open>
  A ship at speed scale 2 accelerates for three steps, the key is released and the
  speed slider is moved down to 0.1.
\<close>

definition ship_after_slider_lowered :: Spaceship where
  "ship_after_slider_lowered =
     setSpeedScale (1 / 10)
       (handleKeyUp ''w''
         (Spaceship_update (Spaceship_update (Spaceship_update
           (handleKeyDown ''w'' (Spaceship_new 2500 2500 2 42 21))))))"

section \<open>Properties\<close>

subsection \<open>Fields left alone by the blocks of the ship's step\<close>

lemma update_boost_charge:
  assumes "0 \<le> boostChargeRate s" "0 \<le> boostDecayRate s" "0 \<le> boostCharge s" "boostCharge s \<le> maxBoostCharge s"
  shows "0 \<le> boostCharge (update_boost s) \<and> boostCharge (update_boost s) \<le> maxBoostCharge (update_boost s)"
  using assms by (auto simp: update_boost_def Let_def)

lemma update_boost_fields:
  "maxBoostCharge (update_boost s) = maxBoostCharge s"
  "boostChargeRate (update_boost s) = boostChargeRate s"
  "boostDecayRate (update_boost s) = boostDecayRate s"
  "speed (update_boost s) = speed s"
  "maxSpeed (update_boost s) = maxSpeed s"
  "speedScale (update_boost s) = speedScale s"
  "acceleration (update_boost s) = acceleration s"
  "deceleration (update_boost s) = deceleration s"
  "baseMaxSpeed (update_boost s) = baseMaxSpeed s"
  "baseAcceleration (update_boost s) = baseAcceleration s"
  "baseDeceleration (update_boost s) = baseDeceleration s"
  by (simp_all add: update_boost_def Let_def)

lemma update_speed_fields:
  "maxBoostCharge (update_speed s) = maxBoostCharge s"
  "boostChargeRate (update_speed s) = boostChargeRate s"
  "boostDecayRate (update_speed s) = boostDecayRate s"
  "boostCharge (update_speed s) = boostCharge s"
  "isBoosting (update_speed s) = isBoosting s"
  "keys (update_speed s) = keys s"
  "maxSpeed (update_speed s) = maxSpeed s"
  "speedScale (update_speed s) = speedScale s"
  "acceleration (update_speed s) = acceleration s"
  "deceleration (update_speed s) = deceleration s"
  "baseMaxSpeed (update_speed s) = baseMaxSpeed s"
  "baseAcceleration (update_speed s) = baseAcceleration s"
  "baseDeceleration (update_speed s) = baseDeceleration s"
  by (simp_all add: update_speed_def Let_def)

lemma update_rotation_fields:
  "maxBoostCharge (update_rotation s) = maxBoostCharge s"
  "boostChargeRate (update_rotation s) = boostChargeRate s"
  "boostDecayRate (update_rotation s) = boostDecayRate s"
  "boostCharge (update_rotation s) = boostCharge s"
  "isBoosting (update_rotation s) = isBoosting s"
  "keys (update_rotation s) = keys s"
  "speed (update_rotation s) = speed s"
  "maxSpeed (update_rotation s) = maxSpeed s"
  "speedScale (update_rotation s) = speedScale s"
  "acceleration (update_rotation s) = acceleration s"
  "deceleration (update_rotation s) = deceleration s"
  "baseMaxSpeed (update_rotation s) = baseMaxSpeed s"
  "baseAcceleration (update_rotation s) = baseAcceleration s"
  "baseDeceleration (update_rotation s) = baseDeceleration s"
  by (simp_all add: update_rotation_def Let_def)

lemma update_position_fields:
  "maxBoostCharge (update_position s) = maxBoostCharge s"
  "boostChargeRate (update_position s) = boostChargeRate s"
  "boostDecayRate (update_position s) = boostDecayRate s"
  "boostCharge (update_position s) = boostCharge s"
  "isBoosting (update_position s) = isBoosting s"
  "keys (update_position s) = keys s"
  "speed (update_position s) = speed s"
  "maxSpeed (update_position s) = maxSpeed s"
  "speedScale (update_position s) = speedScale s"
  "acceleration (update_position s) = acceleration s"
  "deceleration (update_position s) = deceleration s"
  "baseMaxSpeed (update_position s) = baseMaxSpeed s"
  "baseAcceleration (update_position s) = baseAcceleration s"
  "baseDeceleration (update_position s) = baseDeceleration s"
  by (simp_all add: update_position_def Let_def)

lemmas update_fields = update_boost_fields update_speed_fields update_rotation_fields update_position_fields

lemma update_speed_bound:
  assumes "0 \<le> acceleration s" "0 \<le> deceleration s" "\<bar>speed s\<bar> \<le> maxSpeed s"
  shows "\<bar>speed (update_speed s)\<bar> \<le> maxSpeed s"
  using assms by (auto simp: update_speed_def Let_def)

lemma Spaceship_update_speed_bound:
  assumes "0 \<le> acceleration s" "0 \<le> deceleration s" "\<bar>speed s\<bar> \<le> maxSpeed s"
  shows "\<bar>speed (Spaceship_update s)\<bar> \<le> maxSpeed (Spaceship_update s)"
  using update_speed_bound[of "update_rotation s"] assms
  by (simp add: Spaceship_update_def update_fields)

lemma speed_invariant_update:
  assumes "speed_invariant s"
  shows "speed_invariant (Spaceship_update s)"
proof -
  from assms have sc: "0 \<le> speedScale s"
    unfolding speed_invariant_def by (auto simp: abs_le_iff)
  with assms have "0 \<le> acceleration s" "0 \<le> deceleration s" "\<bar>speed s\<bar> \<le> maxSpeed s"
    unfolding speed_invariant_def by auto
  from Spaceship_update_speed_bound[OF this] assms show ?thesis
    unfolding speed_invariant_def by (simp add: Spaceship_update_def update_fields)
qed

lemma reachable_speed_invariant: "reachable s \<Longrightarrow> speed_invariant s"
proof (induction rule: reachable.induct)
  case (reachable_new scale x0 y0 w h)
  then show ?case by (auto simp: speed_invariant_def Spaceship_new_def)
next
  case (reachable_keydown ship k)
  then show ?case by (auto simp: speed_invariant_def handleKeyDown_def)
next
  case (reachable_keyup ship k)
  then show ?case by (auto simp: speed_invariant_def handleKeyUp_def)
next
  case (reachable_setSize ship w h)
  then show ?case by (auto simp: speed_invariant_def setSize_def)
next
  case (reachable_setSpeedScale ship scale)
  then show ?case by (auto simp: speed_invariant_def setSpeedScale_def)
next
  case (reachable_update ship)
  then show ?case by (simp add: speed_invariant_update)
next
  case (reachable_moved ship x1 y1)
  then show ?case by (auto simp: speed_invariant_def)
qed

lemma collide_fields:
  "speed (collide s p) = speed s" "rotation (collide s p) = rotation s" "maxSpeed (collide s p) = maxSpeed s"
  by (simp_all add: collide_def Let_def)

lemma foldl_collide_fields:
  "speed (foldl collide s ps) = speed s \<and> rotation (foldl collide s ps) = rotation s \<and> maxSpeed (foldl collide s ps) = maxSpeed s"
  by (induction ps arbitrary: s) (simp_all add: collide_fields)

lemma toLowerCase_w: "toLowerCase ''w'' = ''w''"
  by (simp add: toLowerCase_def)


subsection \<open>The speed bound\<close>

text \<open>
  Claim C1, as stated, fails: after the speed slider lowered the maximum speed of a
  moving ship, a step with no key held only subtracts the deceleration, and the speed
  stays above the new maximum.
\<close>

theorem speed_bound_counterexample:
  "\<not> \<bar>speed (Spaceship_update ship_after_slider_lowered)\<bar> \<le> maxSpeed (Spaceship_update ship_after_slider_lowered)"
  by (simp add: ship_after_slider_lowered_def Spaceship_update_def update_position_def update_boost_def
    update_speed_def update_rotation_def setSpeedScale_def handleKeyUp_def handleKeyDown_def Spaceship_new_def
    setKey_def toLowerCase_w Let_def)


text \<open>
  Claim C1, amended: in every ship state reached from the constructor (with a speed
  scale that is not negative) by key events, steps, position writes, size changes and
  changes of the speed scale that leave the maximum speed at or above the current
  speed, one registry step leaves every ship with \<open>\<bar>speed\<bar> \<le> maxSpeed\<close>. The boost
  is added to the displacement only and never stored in \<open>speed\<close>.
\<close>

theorem step_keeps_speed_bound:
  assumes "\<forall>ship \<in> set (spaceships em). reachable ship"
  shows "\<forall>ship \<in> set (spaceships (EntityManager_update dt worldW worldH em)). \<bar>speed ship\<bar> \<le> maxSpeed ship"
proof
  fix ship assume "ship \<in> set (spaceships (EntityManager_update dt worldW worldH em))"
  then obtain s0 where s0: "s0 \<in> set (spaceships em)" and eq: "ship = foldl collide (Spaceship_update s0) (planets em)"
    by (auto simp: EntityManager_update_def)
  from s0 assms have "reachable s0" by blast
  then have "speed_invariant (Spaceship_update s0)"
    by (intro speed_invariant_update reachable_speed_invariant)
  then show "\<bar>speed ship\<bar> \<le> maxSpeed ship"
    by (auto simp: eq foldl_collide_fields speed_invariant_def)
qed


theorem step_keeps_speed_bound_witness:
  "reachable (handleKeyDown ''w'' (Spaceship_new 2500 2500 1 42 21))
   \<and> \<bar>speed (hd (spaceships (EntityManager_update 16 5000 5000
          \<lparr> spaceships = [handleKeyDown ''w'' (Spaceship_new 2500 2500 1 42 21)], planets = [] \<rparr>)))\<bar>
       \<le> maxSpeed (hd (spaceships (EntityManager_update 16 5000 5000
          \<lparr> spaceships = [handleKeyDown ''w'' (Spaceship_new 2500 2500 1 42 21)], planets = [] \<rparr>)))"
proof -
  have r: "reachable (handleKeyDown ''w'' (Spaceship_new 2500 2500 1 42 21))"
    by (intro reachable.intros) simp
  from step_keeps_speed_bound
         [of "\<lparr> spaceships = [handleKeyDown ''w'' (Spaceship_new 2500 2500 1 42 21)], planets = [] \<rparr>" 16 5000 5000]
       r
  show ?thesis by (simp add: EntityManager_update_def)
qed

subsection \<open>The boost charge\<close>

lemma update_boost_value:
  assumes "0 \<le> boostChargeRate s" "boostCharge s \<le> maxBoostCharge s"
  shows "isBoosting s \<Longrightarrow> boostCharge (update_boost s) = max 0 (boostCharge s - boostDecayRate s)"
    and "\<not> isBoosting s \<Longrightarrow>
           boostCharge (update_boost s) = min (maxBoostCharge s) (boostCharge s + boostChargeRate s)"
    and "isBoosting s \<Longrightarrow> boostCharge s \<le> boostDecayRate s \<Longrightarrow> \<not> isBoosting (update_boost s)"
  using assms by (auto simp: update_boost_def Let_def)

text \<open>
  Claim C10: with boost parameters of the constructor's signs, a step keeps the boost
  charge between 0 and the maximum charge. While boosting the charge goes down by the
  decay rate, not below 0, and boosting ends when it reaches 0; otherwise it goes up
  by the charge rate, not above the maximum. The percentage shown after the step lies
  between 0 and 100.
\<close>

theorem boost_charge_bounds:
  assumes "boost_parameters s" "0 \<le> boostCharge s" "boostCharge s \<le> maxBoostCharge s"
  shows "0 \<le> boostCharge (Spaceship_update s)
       \<and> boostCharge (Spaceship_update s) \<le> maxBoostCharge (Spaceship_update s)
       \<and> boost_parameters (Spaceship_update s)
       \<and> (isBoosting s \<longrightarrow> boostCharge (Spaceship_update s) = max 0 (boostCharge s - boostDecayRate s))
       \<and> (isBoosting s \<and> boostCharge s \<le> boostDecayRate s \<longrightarrow> \<not> isBoosting (Spaceship_update s))
       \<and> (\<not> isBoosting s \<longrightarrow>
            boostCharge (Spaceship_update s) = min (maxBoostCharge s) (boostCharge s + boostChargeRate s))
       \<and> 0 \<le> getBoostPercentage (Spaceship_update s)
       \<and> getBoostPercentage (Spaceship_update s) \<le> 100"
proof -
  let ?r = "update_speed (update_rotation s)"
  from assms have r: "0 \<le> boostChargeRate ?r" "0 \<le> boostDecayRate ?r" "0 \<le> boostCharge ?r"
      "boostCharge ?r \<le> maxBoostCharge ?r"
    by (simp_all add: boost_parameters_def update_fields)
  from update_boost_charge[OF r]
  have b: "0 \<le> boostCharge (Spaceship_update s)"
      "boostCharge (Spaceship_update s) \<le> maxBoostCharge (Spaceship_update s)"
    by (simp_all add: Spaceship_update_def update_fields)
  have c: "boost_parameters (Spaceship_update s)"
    using assms(1) by (simp add: boost_parameters_def Spaceship_update_def update_fields)
  then have m: "0 < maxBoostCharge (Spaceship_update s)"
    by (simp add: boost_parameters_def)
  from b m have p: "0 \<le> getBoostPercentage (Spaceship_update s) \<and> getBoostPercentage (Spaceship_update s) \<le> 100"
    by (simp add: getBoostPercentage_def field_simps)
  from update_boost_value[OF r(1) r(4)]
  have v: "isBoosting s \<longrightarrow> boostCharge (Spaceship_update s) = max 0 (boostCharge s - boostDecayRate s)"
      "isBoosting s \<and> boostCharge s \<le> boostDecayRate s \<longrightarrow> \<not> isBoosting (Spaceship_update s)"
      "\<not> isBoosting s \<longrightarrow>
         boostCharge (Spaceship_update s) = min (maxBoostCharge s) (boostCharge s + boostChargeRate s)"
    by (simp_all add: Spaceship_update_def update_fields)
  from b c p v show ?thesis by blast
qed

theorem boost_charge_bounds_witness:
  "boost_parameters (Spaceship_new 2500 2500 1 42 21)
   \<and> 0 \<le> boostCharge (Spaceship_new 2500 2500 1 42 21)
   \<and> boostCharge (Spaceship_new 2500 2500 1 42 21) \<le> maxBoostCharge (Spaceship_new 2500 2500 1 42 21)
   \<and> \<not> isBoosting (Spaceship_new 2500 2500 1 42 21)
   \<and> boostCharge (Spaceship_update (Spaceship_new 2500 2500 1 42 21)) = 1 / 2
   \<and> getBoostPercentage (Spaceship_update (Spaceship_new 2500 2500 1 42 21)) \<le> 100
   \<and> boost_parameters ((Spaceship_new 2500 2500 1 42 21)\<lparr> boostCharge := 1, isBoosting := True \<rparr>)
   \<and> isBoosting ((Spaceship_new 2500 2500 1 42 21)\<lparr> boostCharge := 1, isBoosting := True \<rparr>)
   \<and> boostCharge ((Spaceship_new 2500 2500 1 42 21)\<lparr> boostCharge := 1, isBoosting := True \<rparr>)
       \<le> boostDecayRate ((Spaceship_new 2500 2500 1 42 21)\<lparr> boostCharge := 1, isBoosting := True \<rparr>)
   \<and> boostCharge (Spaceship_update ((Spaceship_new 2500 2500 1 42 21)\<lparr> boostCharge := 1, isBoosting := True \<rparr>)) = 0
   \<and> \<not> isBoosting (Spaceship_update ((Spaceship_new 2500 2500 1 42 21)\<lparr> boostCharge := 1, isBoosting := True \<rparr>))"
  using boost_charge_bounds [of "Spaceship_new 2500 2500 1 42 21"]
    boost_charge_bounds [of "(Spaceship_new 2500 2500 1 42 21)\<lparr> boostCharge := 1, isBoosting := True \<rparr>"]
  by (simp add: boost_parameters_def Spaceship_new_def)

subsection \<open>The state machine\<close>

text \<open>
  For the two members of \<^verbatim>\<open>GameState\<close> the state is set to the given value, a
  second call with the same value changes nothing but the console, and a name that
  is neither a member nor a property of \<^verbatim>\<open>Object.prototype\<close> is rejected with an
  error on the console.
\<close>

lemma setGameState_member:
  "k = FLYING \<or> k = PLANET_VIEW \<Longrightarrow> gameState (Game_setGameState k g) = k"
  by (auto simp: Game_setGameState_def getProperty_def GameState_def FLYING_def PLANET_VIEW_def)

lemma setGameState_idempotent:
  "Game_setGameState k (Game_setGameState k g) = (Game_setGameState k g)\<lparr> console := console (Game_setGameState k (Game_setGameState k g)) \<rparr>"
  by (simp add: Game_setGameState_def)

lemma setGameState_idempotent_state:
  "gameState (Game_setGameState k (Game_setGameState k g)) = gameState (Game_setGameState k g)"
  by (simp add: Game_setGameState_def)

lemma setGameState_rejected:
  assumes "map_of GameState k = None" "map_of Object_prototype k = None"
  shows "gameState (Game_setGameState k g) = gameState g"
    and "console (Game_setGameState k g) = console g @ [ConsoleError [S (''Attempted to set invalid game state: '' @ k)]]"
  using assms by (simp_all add: Game_setGameState_def getProperty_def)


text \<open>
  Claim C2 fails on the code at the names a plain object inherits: the test
  \<^verbatim>\<open>GameState[newState]\<close> finds \<^verbatim>\<open>Object.prototype.toString\<close>, a function and so
  truthy, and the state becomes the text \<^verbatim>\<open>toString\<close>, which is no member of the
  enumeration.
\<close>

theorem setGameState_inherited_name:
  "map_of GameState ''toString'' = None
   \<and> gameState (Game_setGameState ''toString'' g) = ''toString''"
  by (simp add: Game_setGameState_def getProperty_def GameState_def Object_prototype_def)


subsection \<open>Landing eligibility\<close>

lemma showMessage_persistent:
  "messageText (ui (UI_showMessage m 0 g)) = m"
  "messageActive (ui (UI_showMessage m 0 g))"
  "gameState (UI_showMessage m 0 g) = gameState g"
  "entityManager (UI_showMessage m 0 g) = entityManager g"
  by (simp_all add: UI_showMessage_def cancelMessageTimeout_def clearTimeout_def Let_def split: option.splits)

lemma canLand_iff: "canLand ship \<longleftrightarrow> \<bar>speed ship\<bar> < 1 / 2 * maxSpeed ship"
  by (simp add: canLand_def Let_def mult.commute)

lemma setTimeout_fields:
  "gameState (snd (setTimeout a d g)) = gameState g"
  "ui (snd (setTimeout a d g)) = ui g"
  "entityManager (snd (setTimeout a d g)) = entityManager g"
  by (simp_all add: setTimeout_def)

lemma setGameState_fields:
  "ui (Game_setGameState k g) = ui g"
  "entityManager (Game_setGameState k g) = entityManager g"
  "timers (Game_setGameState k g) = timers g"
  by (simp_all add: Game_setGameState_def)


text \<open>
  Claim C3: over a hovered planet the protocol's eligibility test is
  \<open>\<bar>speed\<bar> < 0.5 * maxSpeed\<close>; it alone selects the advisory, and together with the
  interact key it decides the transition. At exactly half the maximum speed the ship is
  not eligible, and at 0.4 of it in reverse it is.
\<close>

theorem landing_eligibility:
  assumes "gameState g = FLYING"
    and "getPlayerShip (entityManager g) = Some ship"
    and "findHovered ship (getAllPlanets (entityManager g)) = Some p"
  shows "(canLand ship \<longleftrightarrow> \<bar>speed ship\<bar> < 1 / 2 * maxSpeed ship)
     \<and> messageText (ui (InteractionSystem_update dt g)) =
         (if \<bar>speed ship\<bar> < 1 / 2 * maxSpeed ship
          then ''Press E to land on '' @ name p else ''Slow down to land on '' @ name p)
     \<and> (gameState (InteractionSystem_update dt g) = PLANET_VIEW
          \<longleftrightarrow> key_e (keys ship) \<and> \<bar>speed ship\<bar> < 1 / 2 * maxSpeed ship)
     \<and> (0 < maxSpeed ship \<and> speed ship = 1 / 2 * maxSpeed ship \<longrightarrow> \<not> canLand ship)
     \<and> (0 < maxSpeed ship \<and> speed ship = - (4 / 10) * maxSpeed ship \<longrightarrow> canLand ship)"
proof -
  have a: "canLand ship \<longleftrightarrow> \<bar>speed ship\<bar> < 1 / 2 * maxSpeed ship"
    by (rule canLand_iff)
  have b: "messageText (ui (InteractionSystem_update dt g)) =
         (if \<bar>speed ship\<bar> < 1 / 2 * maxSpeed ship
          then ''Press E to land on '' @ name p else ''Slow down to land on '' @ name p)"
    using assms
    by (simp add: InteractionSystem_update_def Let_def showMessage_persistent setTimeout_fields
        setGameState_fields canLand_iff)
  have fp: "FLYING \<noteq> PLANET_VIEW" by (simp add: FLYING_def PLANET_VIEW_def)
  have c: "gameState (InteractionSystem_update dt g) = PLANET_VIEW
          \<longleftrightarrow> key_e (keys ship) \<and> \<bar>speed ship\<bar> < 1 / 2 * maxSpeed ship"
    using assms fp
    by (auto simp: InteractionSystem_update_def Let_def showMessage_persistent setTimeout_fields
        setGameState_member canLand_iff)
  have d: "0 < maxSpeed ship \<and> speed ship = 1 / 2 * maxSpeed ship \<longrightarrow> \<not> canLand ship"
    by (auto simp: canLand_iff)
  have e: "0 < maxSpeed ship \<and> speed ship = - (4 / 10) * maxSpeed ship \<longrightarrow> canLand ship"
    by (auto simp: canLand_iff abs_mult)
  from a b c d e show ?thesis by blast
qed

lemma demo_hover:
  "posX ship = 1000 \<Longrightarrow> posY ship = 1000 \<Longrightarrow> 0 < radius ship \<Longrightarrow>
   findHovered ship (getAllPlanets (entityManager (demo_game ship))) = Some demo_planet"
  by (simp add: demo_game_def getAllPlanets_def checkCollision_def distance_def demo_planet_def)

theorem landing_eligibility_witness:
  "gameState (demo_game ((Spaceship_new 1000 1000 1 42 21)\<lparr> speed := 5 / 2 \<rparr>)) = FLYING
   \<and> getPlayerShip (entityManager (demo_game ((Spaceship_new 1000 1000 1 42 21)\<lparr> speed := 5 / 2 \<rparr>)))
       = Some ((Spaceship_new 1000 1000 1 42 21)\<lparr> speed := 5 / 2 \<rparr>)
   \<and> findHovered ((Spaceship_new 1000 1000 1 42 21)\<lparr> speed := 5 / 2 \<rparr>)
         (getAllPlanets (entityManager (demo_game ((Spaceship_new 1000 1000 1 42 21)\<lparr> speed := 5 / 2 \<rparr>))))
       = Some demo_planet
   \<and> 0 < maxSpeed ((Spaceship_new 1000 1000 1 42 21)\<lparr> speed := 5 / 2 \<rparr>)
   \<and> speed ((Spaceship_new 1000 1000 1 42 21)\<lparr> speed := 5 / 2 \<rparr>)
       = 1 / 2 * maxSpeed ((Spaceship_new 1000 1000 1 42 21)\<lparr> speed := 5 / 2 \<rparr>)
   \<and> \<not> canLand ((Spaceship_new 1000 1000 1 42 21)\<lparr> speed := 5 / 2 \<rparr>)
   \<and> messageText (ui (InteractionSystem_update 16
         (demo_game ((Spaceship_new 1000 1000 1 42 21)\<lparr> speed := 5 / 2 \<rparr>))))
       = ''Slow down to land on Xenon''
   \<and> speed ((Spaceship_new 1000 1000 1 42 21)\<lparr> speed := - 2 \<rparr>)
       = - (4 / 10) * maxSpeed ((Spaceship_new 1000 1000 1 42 21)\<lparr> speed := - 2 \<rparr>)
   \<and> canLand ((Spaceship_new 1000 1000 1 42 21)\<lparr> speed := - 2 \<rparr>)
   \<and> messageText (ui (InteractionSystem_update 16
         (demo_game ((Spaceship_new 1000 1000 1 42 21)\<lparr> speed := - 2 \<rparr>))))
       = ''Press E to land on Xenon''"
proof -
  let ?a = "(Spaceship_new 1000 1000 1 42 21)\<lparr> speed := 5 / 2 \<rparr>"
  let ?b = "(Spaceship_new 1000 1000 1 42 21)\<lparr> speed := - 2 \<rparr>"
  have fa: "gameState (demo_game ?a) = FLYING" and fb: "gameState (demo_game ?b) = FLYING"
    by (simp_all add: demo_game_def)
  have pa: "getPlayerShip (entityManager (demo_game ?a)) = Some ?a"
    and pb: "getPlayerShip (entityManager (demo_game ?b)) = Some ?b"
    by (simp_all add: demo_game_def getPlayerShip_def)
  have ha: "findHovered ?a (getAllPlanets (entityManager (demo_game ?a))) = Some demo_planet"
    and hb: "findHovered ?b (getAllPlanets (entityManager (demo_game ?b))) = Some demo_planet"
    by (simp_all add: demo_hover Spaceship_new_def)
  have n: "name demo_planet = ''Xenon''" by (simp add: demo_planet_def)
  have va: "maxSpeed ?a = 5" "speed ?a = 5 / 2" and vb: "maxSpeed ?b = 5" "speed ?b = - 2"
    by (simp_all add: Spaceship_new_def)
  from landing_eligibility [OF fa pa ha, of 16] landing_eligibility [OF fb pb hb, of 16] fa pa ha n va vb
  show ?thesis by simp
qed

subsection \<open>The collision correction\<close>


lemma sqrt_sum_pos: "x \<noteq> 0 \<or> y \<noteq> 0 \<Longrightarrow> 0 < sqrt (x * x + y * y)"
  by (metis add_nonneg_eq_0_iff less_eq_real_def mult_eq_0_iff real_sqrt_gt_zero zero_le_square add_nonneg_nonneg)










lemma registry_step_keeps_speed_and_heading:
  "map speed (spaceships (EntityManager_update dt worldW worldH em)) = map (\<lambda>ship. speed (Spaceship_update ship)) (spaceships em)"
  "map rotation (spaceships (EntityManager_update dt worldW worldH em)) = map (\<lambda>ship. rotation (Spaceship_update ship)) (spaceships em)"
  by (simp_all add: EntityManager_update_def foldl_collide_fields)










subsection \<open>Fields left alone by the operations of the user interface\<close>

lemma cancelMessageTimeout_fields:
  "gameState (cancelMessageTimeout g) = gameState g"
  "entityManager (cancelMessageTimeout g) = entityManager g"
  "nextTimerId (cancelMessageTimeout g) = nextTimerId g"
  "onLeaveCallback (ui (cancelMessageTimeout g)) = onLeaveCallback (ui g)"
  "messageText (ui (cancelMessageTimeout g)) = messageText (ui g)"
  "messageActive (ui (cancelMessageTimeout g)) = messageActive (ui g)"
  "set (timers (cancelMessageTimeout g)) \<subseteq> set (timers g)"
  by (auto simp: cancelMessageTimeout_def clearTimeout_def split: option.splits)

lemma clearMessage_fields:
  "gameState (UI_clearMessage g) = gameState g"
  "entityManager (UI_clearMessage g) = entityManager g"
  "nextTimerId (UI_clearMessage g) = nextTimerId g"
  "onLeaveCallback (ui (UI_clearMessage g)) = onLeaveCallback (ui g)"
  "messageText (ui (UI_clearMessage g)) = messageText (ui g)"
  "\<not> messageActive (ui (UI_clearMessage g))"
  by (simp_all add: UI_clearMessage_def cancelMessageTimeout_fields)

lemma showMessage_fields:
  "gameState (UI_showMessage m d g) = gameState g"
  "entityManager (UI_showMessage m d g) = entityManager g"
  "onLeaveCallback (ui (UI_showMessage m d g)) = onLeaveCallback (ui g)"
  "messageText (ui (UI_showMessage m d g)) = m"
  "messageActive (ui (UI_showMessage m d g))"
  by (simp_all add: UI_showMessage_def Let_def setTimeout_def cancelMessageTimeout_fields)

lemma showMessage_persistent_timers:
  "nextTimerId (UI_showMessage m 0 g) = nextTimerId g"
  "set (timers (UI_showMessage m 0 g)) \<subseteq> set (timers g)"
  using cancelMessageTimeout_fields(7)[of g]
  by (simp_all add: UI_showMessage_def Let_def cancelMessageTimeout_fields)

lemma setGameState_keeps:
  "ui (Game_setGameState k g) = ui g"
  "entityManager (Game_setGameState k g) = entityManager g"
  "timers (Game_setGameState k g) = timers g"
  "nextTimerId (Game_setGameState k g) = nextTimerId g"
  by (simp_all add: Game_setGameState_def)

lemma setGameState_members:
  "gameState (Game_setGameState FLYING g) = FLYING"
  "gameState (Game_setGameState PLANET_VIEW g) = PLANET_VIEW"
  by (simp_all add: Game_setGameState_def getProperty_def GameState_def FLYING_def PLANET_VIEW_def)

lemma states_differ: "FLYING \<noteq> PLANET_VIEW" "PLANET_VIEW \<noteq> FLYING"
  by (simp_all add: FLYING_def PLANET_VIEW_def)

lemma interact_held_cleared:
  "\<not> interact_held (g\<lparr> entityManager :=
       withPlayerShip (\<lambda>ship. ship\<lparr> keys := (keys ship)\<lparr> key_e := False \<rparr> \<rparr>) (entityManager g) \<rparr>)"
  by (simp add: interact_held_def getPlayerShip_def withPlayerShip_def split: list.splits)

lemma withPlayerShip_nonempty:
  "spaceships (withPlayerShip f em) \<noteq> [] \<longleftrightarrow> spaceships em \<noteq> []"
  by (simp add: withPlayerShip_def split: list.splits)

lemma landing_step:
  assumes "gameState g = FLYING"
    and "getPlayerShip (entityManager g) = Some ship"
    and "findHovered ship (getAllPlanets (entityManager g)) = Some p"
    and "key_e (keys ship)" and "canLand ship"
  shows "InteractionSystem_update dt g =
     snd (setTimeout (ShowPlanetInfoLater p) 100
       ((Game_setGameState PLANET_VIEW (UI_showMessage (''Press E to land on '' @ name p) 0 g))
          \<lparr> entityManager :=
               withPlayerShip (\<lambda>ship. ship\<lparr> keys := (keys ship)\<lparr> key_e := False \<rparr> \<rparr>)
                 (entityManager (Game_setGameState PLANET_VIEW (UI_showMessage (''Press E to land on '' @ name p) 0 g))) \<rparr>))"
  using assms by (simp add: InteractionSystem_update_def Let_def)

lemma find_fresh:
  assumes "\<forall>t \<in> set ts. timer_id t \<noteq> i" and "timer_id t0 = i"
  shows "find (\<lambda>t. timer_id t = i) (ts @ [t0]) = Some t0"
  using assms by (induction ts) auto

lemma landing_state:
  assumes "gameState g = FLYING"
    and "getPlayerShip (entityManager g) = Some ship"
    and "findHovered ship (getAllPlanets (entityManager g)) = Some p"
    and "key_e (keys ship)" and "canLand ship"
  shows "gameState (InteractionSystem_update dt g) = PLANET_VIEW"
    and "\<not> interact_held (InteractionSystem_update dt g)"
    and "spaceships (entityManager (InteractionSystem_update dt g)) \<noteq> []"
    and "\<exists>ts. set ts \<subseteq> set (timers g) \<and> timers (InteractionSystem_update dt g) =
           ts @ [\<lparr> timer_id = nextTimerId g, timer_delay = 100, timer_action = ShowPlanetInfoLater p \<rparr>]"
proof -
  let ?m = "UI_showMessage (''Press E to land on '' @ name p) 0 g"
  let ?g2 = "Game_setGameState PLANET_VIEW ?m"
  let ?g3 = "?g2\<lparr> entityManager :=
               withPlayerShip (\<lambda>ship. ship\<lparr> keys := (keys ship)\<lparr> key_e := False \<rparr> \<rparr>) (entityManager ?g2) \<rparr>"
  have eq: "InteractionSystem_update dt g = snd (setTimeout (ShowPlanetInfoLater p) 100 ?g3)"
    using landing_step[OF assms] .
  show "gameState (InteractionSystem_update dt g) = PLANET_VIEW"
    by (simp add: eq setTimeout_def setGameState_members)
  have "\<not> interact_held ?g3" by (rule interact_held_cleared)
  then show "\<not> interact_held (InteractionSystem_update dt g)"
    by (simp add: eq setTimeout_def interact_held_def)
  from assms(2) have "spaceships (entityManager g) \<noteq> []"
    by (auto simp: getPlayerShip_def split: list.splits)
  then show "spaceships (entityManager (InteractionSystem_update dt g)) \<noteq> []"
    by (simp add: eq setTimeout_def withPlayerShip_nonempty setGameState_keeps showMessage_fields)
  have "timers (InteractionSystem_update dt g) =
       timers ?m @ [\<lparr> timer_id = nextTimerId g, timer_delay = 100, timer_action = ShowPlanetInfoLater p \<rparr>]"
    by (simp add: eq setTimeout_def setGameState_keeps showMessage_persistent_timers)
  moreover have "set (timers ?m) \<subseteq> set (timers g)" by (rule showMessage_persistent_timers)
  ultimately show "\<exists>ts. set ts \<subseteq> set (timers g) \<and> timers (InteractionSystem_update dt g) =
           ts @ [\<lparr> timer_id = nextTimerId g, timer_delay = 100, timer_action = ShowPlanetInfoLater p \<rparr>]"
    by blast
qed

lemma showPlanetInfo_fields:
  "gameState (UI_showPlanetInfo p cb g) = gameState g"
  "entityManager (UI_showPlanetInfo p cb g) = entityManager g"
  "onLeaveCallback (ui (UI_showPlanetInfo p cb g)) = Some cb"
  "isPlanetViewActive (ui (UI_showPlanetInfo p cb g))"
  by (simp_all add: UI_showPlanetInfo_def UI_clearMessage_def cancelMessageTimeout_def clearTimeout_def split: option.splits)

lemma fire_landing_timer:
  assumes "timers g1 = ts @ [\<lparr> timer_id = i, timer_delay = 100, timer_action = ShowPlanetInfoLater p \<rparr>]"
    and "\<forall>t \<in> set ts. timer_id t \<noteq> i"
  shows "fireTimer i g1 = UI_showPlanetInfo p (LeavePlanet p) (g1\<lparr> timers := filter (\<lambda>t. timer_id t \<noteq> i) (timers g1) \<rparr>)"
  using find_fresh[OF assms(2), of "\<lparr> timer_id = i, timer_delay = 100, timer_action = ShowPlanetInfoLater p \<rparr>"] assms(1)
  by (simp add: fireTimer_def Let_def)

lemma modal_event: "modal p g \<Longrightarrow> modal p (window_event g ev)"
  by (cases ev)
     (auto simp: modal_def window_keydown_def window_keyup_def Game_gameLoop_def Game_render_def Let_def states_differ)

lemma modal_events: "modal p g \<Longrightarrow> modal p (foldl window_event g evs)"
  by (induction evs arbitrary: g) (simp_all add: modal_event)

lemma leave_modal:
  assumes "modal p g"
  shows "gameState (UI_hidePlanetInfo g) = FLYING"
    and "\<not> interact_held (UI_hidePlanetInfo g)"
    and "spaceships (entityManager (UI_hidePlanetInfo g)) \<noteq> []"
    and "messageText (ui (UI_hidePlanetInfo g)) = ''Left '' @ name p"
    and "onLeaveCallback (ui (UI_hidePlanetInfo g)) = None"
proof -
  let ?g1 = "g\<lparr> ui := (ui g)\<lparr> isPlanetViewActive := False, planetInfoVisible := False \<rparr> \<rparr>"
  let ?s = "Game_setGameState FLYING ?g1"
  let ?k = "?s\<lparr> entityManager :=
              withPlayerShip (\<lambda>ship. ship\<lparr> keys := (keys ship)\<lparr> key_e := False \<rparr> \<rparr>) (entityManager ?s) \<rparr>"
  let ?r = "UI_showMessage (''Left '' @ name p) 3000 ?k"
  from assms have eq: "UI_hidePlanetInfo g = ?r\<lparr> ui := (ui ?r)\<lparr> onLeaveCallback := None \<rparr> \<rparr>"
    by (simp add: UI_hidePlanetInfo_def modal_def Let_def)
  show "gameState (UI_hidePlanetInfo g) = FLYING"
    by (simp add: eq showMessage_fields setGameState_members)
  have "\<not> interact_held ?k" by (rule interact_held_cleared)
  then show "\<not> interact_held (UI_hidePlanetInfo g)"
    by (simp add: eq interact_held_def showMessage_fields)
  from assms show "spaceships (entityManager (UI_hidePlanetInfo g)) \<noteq> []"
    by (simp add: eq showMessage_fields withPlayerShip_nonempty setGameState_keeps modal_def)
  show "messageText (ui (UI_hidePlanetInfo g)) = ''Left '' @ name p"
    by (simp add: eq showMessage_fields)
  show "onLeaveCallback (ui (UI_hidePlanetInfo g)) = None"
    by (simp add: eq)
qed


lemma pending_event: "landing_pending p i g \<Longrightarrow> landing_pending p i (window_event g ev)"
  by (cases ev)
     (auto simp: landing_pending_def window_keydown_def window_keyup_def Game_gameLoop_def Game_render_def
        Let_def states_differ)

lemma pending_events: "landing_pending p i g \<Longrightarrow> landing_pending p i (foldl window_event g evs)"
  by (induction evs arbitrary: g) (simp_all add: pending_event)

lemma pending_fire: 
  assumes "landing_pending p i g"
  shows "modal p (fireTimer i g)"
proof -
  from assms obtain ts where ts: "timers g = ts @ [\<lparr> timer_id = i, timer_delay = 100, timer_action = ShowPlanetInfoLater p \<rparr>]"
    "\<forall>t \<in> set ts. timer_id t \<noteq> i"
    by (auto simp: landing_pending_def)
  from assms show ?thesis
    by (simp add: fire_landing_timer[OF ts] modal_def showPlanetInfo_fields landing_pending_def)
qed

lemma modal_session_modal:
  "landing_pending p i g \<Longrightarrow> modal p (modal_session i before after g)"
  unfolding modal_session_def by (intro modal_events pending_fire pending_events)


subsection \<open>Landing and leaving\<close>

text \<open>
  Claim C7: a ship over a planet, slow enough, with the interact key held. The
  protocol's frame sets the state to \<^verbatim>\<open>PLANET_VIEW\<close> and clears the key flag. Whatever
  key events and frames come before and after the timer that opens the panel, the
  state stays \<^verbatim>\<open>PLANET_VIEW\<close> and the leave callback stays stored; when the leave
  button then runs it, the state is \<^verbatim>\<open>FLYING\<close> again and the key flag of the player
  ship is false, whatever it was before.
\<close>

theorem landing_round_trip:
  assumes "gameState g = FLYING"
    and "getPlayerShip (entityManager g) = Some ship"
    and "findHovered ship (getAllPlanets (entityManager g)) = Some p"
    and "key_e (keys ship)" and "canLand ship"
    and "\<forall>t \<in> set (timers g). timer_id t \<noteq> nextTimerId g"
  shows "gameState (InteractionSystem_update dt g) = PLANET_VIEW
     \<and> \<not> interact_held (InteractionSystem_update dt g)
     \<and> (\<forall>before after.
          gameState (modal_session (nextTimerId g) before after (InteractionSystem_update dt g)) = PLANET_VIEW
        \<and> onLeaveCallback (ui (modal_session (nextTimerId g) before after (InteractionSystem_update dt g)))
            = Some (LeavePlanet p)
        \<and> getPlayerShip (entityManager
              (modal_session (nextTimerId g) before after (InteractionSystem_update dt g))) \<noteq> None
        \<and> gameState (UI_hidePlanetInfo
              (modal_session (nextTimerId g) before after (InteractionSystem_update dt g))) = FLYING
        \<and> \<not> interact_held (UI_hidePlanetInfo
              (modal_session (nextTimerId g) before after (InteractionSystem_update dt g)))
        \<and> getPlayerShip (entityManager (UI_hidePlanetInfo
              (modal_session (nextTimerId g) before after (InteractionSystem_update dt g)))) \<noteq> None)"
proof -
  let ?g1 = "InteractionSystem_update dt g"
  note l = landing_state[OF assms(1-5), of dt]
  from l(4) obtain ts where ts: "set ts \<subseteq> set (timers g)"
    "timers ?g1 = ts @ [\<lparr> timer_id = nextTimerId g, timer_delay = 100, timer_action = ShowPlanetInfoLater p \<rparr>]"
    by blast
  from ts(1) assms(6) have fresh: "\<forall>t \<in> set ts. timer_id t \<noteq> nextTimerId g" by blast
  from l(1) l(3) ts(2) fresh have pend: "landing_pending p (nextTimerId g) ?g1"
    unfolding landing_pending_def by blast
  have "\<forall>before after.
          gameState (modal_session (nextTimerId g) before after ?g1) = PLANET_VIEW
        \<and> onLeaveCallback (ui (modal_session (nextTimerId g) before after ?g1)) = Some (LeavePlanet p)
        \<and> getPlayerShip (entityManager (modal_session (nextTimerId g) before after ?g1)) \<noteq> None
        \<and> gameState (UI_hidePlanetInfo (modal_session (nextTimerId g) before after ?g1)) = FLYING
        \<and> \<not> interact_held (UI_hidePlanetInfo (modal_session (nextTimerId g) before after ?g1))
        \<and> getPlayerShip (entityManager (UI_hidePlanetInfo (modal_session (nextTimerId g) before after ?g1))) \<noteq> None"
  proof (intro allI)
    fix before after
    have me: "modal p (modal_session (nextTimerId g) before after ?g1)"
      using pend by (rule modal_session_modal)
    from leave_modal[OF me] me
    show "gameState (modal_session (nextTimerId g) before after ?g1) = PLANET_VIEW
        \<and> onLeaveCallback (ui (modal_session (nextTimerId g) before after ?g1)) = Some (LeavePlanet p)
        \<and> getPlayerShip (entityManager (modal_session (nextTimerId g) before after ?g1)) \<noteq> None
        \<and> gameState (UI_hidePlanetInfo (modal_session (nextTimerId g) before after ?g1)) = FLYING
        \<and> \<not> interact_held (UI_hidePlanetInfo (modal_session (nextTimerId g) before after ?g1))
        \<and> getPlayerShip (entityManager (UI_hidePlanetInfo (modal_session (nextTimerId g) before after ?g1))) \<noteq> None"
      by (auto simp: modal_def getPlayerShip_def split: list.splits)
  qed
  with l(1) l(2) show ?thesis by blast
qed


subsection \<open>Clearing the advisory\<close>









subsection \<open>The frame loop\<close>

lemma toLowerCase_e: "toLowerCase ''e'' = ''e''"
  by (simp add: toLowerCase_def)

lemma sqrt_81_10: "sqrt (6561 / 100) = 81 / 10"
  by (rule real_sqrt_unique) (simp_all add: power2_eq_square)

lemma e_ship_step:
  "collide (Spaceship_update e_ship) demo_planet = (Spaceship_update e_ship)\<lparr> posX := 10081 / 10 \<rparr>"
  by (simp add: e_ship_def Spaceship_update_def update_position_def update_boost_def update_speed_def
      update_rotation_def handleKeyDown_def Spaceship_new_def setKey_def toLowerCase_e Let_def
      collide_def collisionThreshold_def demo_planet_def atan2_def)


lemma render_fields:
  "entityManager (Game_render g) = entityManager g" "ui (Game_render g) = ui g"
  "gameState (Game_render g) = gameState g" "timers (Game_render g) = timers g"
  "cameraX (Game_render g) = cameraX g" "cameraY (Game_render g) = cameraY g"
  "canvasWidth (Game_render g) = canvasWidth g" "canvasHeight (Game_render g) = canvasHeight g"
  "worldWidth (Game_render g) = worldWidth g" "worldHeight (Game_render g) = worldHeight g"
  "drawStars (Game_render g) = drawStars g" "drawMinimap (Game_render g) = drawMinimap g"
  by (simp_all add: Game_render_def drawStars_def drawMinimap_def)

lemma render_canvas:
  "canvas (Game_render g) =
     [FillRect 0 0 (canvasWidth g) (canvasHeight g) ''#000000''] @ drawStars g
     @ EntityManager_render (entityManager g) (cameraX g) (cameraY g) @ drawMinimap g"
  by (simp add: Game_render_def)

lemma interaction_without_player:
  "getPlayerShip (entityManager g) = None \<Longrightarrow> InteractionSystem_update dt g = g"
  by (simp add: InteractionSystem_update_def)

lemma interaction_keeps_ship_count:
  "length (spaceships (entityManager (InteractionSystem_update dt g))) = length (spaceships (entityManager g))"
  by (auto simp: InteractionSystem_update_def Let_def setTimeout_def setGameState_keeps showMessage_fields
      clearMessage_fields withPlayerShip_def split: option.splits list.splits)

lemma Game_update_eq:
  "Game_update dt g =
     follow_player (InteractionSystem_update dt
       (g\<lparr> entityManager := EntityManager_update dt (worldWidth g) (worldHeight g) (entityManager g) \<rparr>))"
proof -
  let ?g1 = "g\<lparr> entityManager := EntityManager_update dt (worldWidth g) (worldHeight g) (entityManager g) \<rparr>"
  show ?thesis
  proof (cases "getPlayerShip (entityManager ?g1)")
    case None
    then have "spaceships (entityManager ?g1) = []"
      by (simp add: getPlayerShip_def split: list.splits)
    with None show ?thesis
      by (simp add: Game_update_def Let_def interaction_without_player follow_player_def)
  next
    case (Some a)
    then show ?thesis by (simp add: Game_update_def Let_def)
  qed
qed


text \<open>
  Claim C6: in state \<^verbatim>\<open>FLYING\<close> a frame is the registry step, then the interaction
  protocol, then the camera and bounds, then the rendering; in any other state it is
  the rendering alone, and registry, interface, state and timers stay as they were. In
  every state the canvas then holds the background, the stars, the registry's planets
  and ships, and the minimap, drawn from the state at the end of the frame. Without a
  player ship \<^verbatim>\<open>Game.update\<close> returns before the protocol, which would do nothing
  then.
\<close>

theorem frame_gating:
  "(gameState g = FLYING \<longrightarrow>
      Game_gameLoop t g =
        Game_render (follow_player (InteractionSystem_update (t - lastTime g)
          (g\<lparr> console := console g @ [ConsoleLog [S ''[Game.gameLoop] Frame: '', N t]],
               lastTime := t,
               entityManager := EntityManager_update (t - lastTime g) (worldWidth g) (worldHeight g)
                                  (entityManager g) \<rparr>))))
   \<and> (gameState g \<noteq> FLYING \<longrightarrow>
        Game_gameLoop t g =
          Game_render (g\<lparr> console := console g @ [ConsoleLog [S ''[Game.gameLoop] Frame: '', N t]],
                           lastTime := t \<rparr>)
      \<and> entityManager (Game_gameLoop t g) = entityManager g
      \<and> ui (Game_gameLoop t g) = ui g
      \<and> gameState (Game_gameLoop t g) = gameState g
      \<and> timers (Game_gameLoop t g) = timers g)
   \<and> canvas (Game_gameLoop t g) =
        [FillRect 0 0 (canvasWidth (Game_gameLoop t g)) (canvasHeight (Game_gameLoop t g)) ''#000000'']
        @ drawStars (Game_gameLoop t g)
        @ EntityManager_render (entityManager (Game_gameLoop t g))
            (cameraX (Game_gameLoop t g)) (cameraY (Game_gameLoop t g))
        @ drawMinimap (Game_gameLoop t g)"
proof -
  have a: "gameState g = FLYING \<longrightarrow>
      Game_gameLoop t g =
        Game_render (follow_player (InteractionSystem_update (t - lastTime g)
          (g\<lparr> console := console g @ [ConsoleLog [S ''[Game.gameLoop] Frame: '', N t]],
               lastTime := t,
               entityManager := EntityManager_update (t - lastTime g) (worldWidth g) (worldHeight g)
                                  (entityManager g) \<rparr>)))"
    by (simp add: Game_gameLoop_def Let_def Game_update_eq)
  have b: "gameState g \<noteq> FLYING \<longrightarrow>
        Game_gameLoop t g =
          Game_render (g\<lparr> console := console g @ [ConsoleLog [S ''[Game.gameLoop] Frame: '', N t]],
                           lastTime := t \<rparr>)"
    by (simp add: Game_gameLoop_def Let_def)
  then have c: "gameState g \<noteq> FLYING \<longrightarrow>
        entityManager (Game_gameLoop t g) = entityManager g
      \<and> ui (Game_gameLoop t g) = ui g
      \<and> gameState (Game_gameLoop t g) = gameState g
      \<and> timers (Game_gameLoop t g) = timers g"
    by (simp add: render_fields)
  obtain g2 where g2: "Game_gameLoop t g = Game_render g2"
    by (simp add: Game_gameLoop_def Let_def)
  have d: "canvas (Game_gameLoop t g) =
        [FillRect 0 0 (canvasWidth (Game_gameLoop t g)) (canvasHeight (Game_gameLoop t g)) ''#000000'']
        @ drawStars (Game_gameLoop t g)
        @ EntityManager_render (entityManager (Game_gameLoop t g))
            (cameraX (Game_gameLoop t g)) (cameraY (Game_gameLoop t g))
        @ drawMinimap (Game_gameLoop t g)"
    unfolding g2 by (simp add: render_canvas render_fields)
  from a b c d show ?thesis by blast
qed

subsection \<open>The camera\<close>

lemma cancelMessageTimeout_geometry:
  "canvasWidth (cancelMessageTimeout g) = canvasWidth g" "canvasHeight (cancelMessageTimeout g) = canvasHeight g"
  "worldWidth (cancelMessageTimeout g) = worldWidth g" "worldHeight (cancelMessageTimeout g) = worldHeight g"
  by (simp_all add: cancelMessageTimeout_def clearTimeout_def split: option.splits)

lemma showMessage_geometry:
  "canvasWidth (UI_showMessage m d g) = canvasWidth g" "canvasHeight (UI_showMessage m d g) = canvasHeight g"
  "worldWidth (UI_showMessage m d g) = worldWidth g" "worldHeight (UI_showMessage m d g) = worldHeight g"
  by (simp_all add: UI_showMessage_def Let_def setTimeout_def cancelMessageTimeout_geometry)

lemma clearMessage_geometry:
  "canvasWidth (UI_clearMessage g) = canvasWidth g" "canvasHeight (UI_clearMessage g) = canvasHeight g"
  "worldWidth (UI_clearMessage g) = worldWidth g" "worldHeight (UI_clearMessage g) = worldHeight g"
  by (simp_all add: UI_clearMessage_def cancelMessageTimeout_geometry)

lemma setGameState_geometry:
  "canvasWidth (Game_setGameState k g) = canvasWidth g" "canvasHeight (Game_setGameState k g) = canvasHeight g"
  "worldWidth (Game_setGameState k g) = worldWidth g" "worldHeight (Game_setGameState k g) = worldHeight g"
  by (simp_all add: Game_setGameState_def)

lemma interaction_geometry:
  "canvasWidth (InteractionSystem_update dt g) = canvasWidth g"
  "canvasHeight (InteractionSystem_update dt g) = canvasHeight g"
  "worldWidth (InteractionSystem_update dt g) = worldWidth g"
  "worldHeight (InteractionSystem_update dt g) = worldHeight g"
  by (simp_all add: InteractionSystem_update_def Let_def setTimeout_def showMessage_geometry
      clearMessage_geometry setGameState_geometry split: option.splits)

lemma interaction_player_position:
  assumes "spaceships (entityManager g) = s # rest"
  shows "\<exists>s'. spaceships (entityManager (InteractionSystem_update dt g)) = s' # rest
            \<and> posX s' = posX s \<and> posY s' = posY s"
  using assms
  by (auto simp: InteractionSystem_update_def Let_def setTimeout_def setGameState_keeps showMessage_fields
      clearMessage_fields withPlayerShip_def split: option.splits)

lemma follow_player_camera:
  assumes "spaceships (entityManager g) = s # rest"
  shows "cameraX (follow_player g) = clamp (posX s - canvasWidth g / 2) 0 (worldWidth g - canvasWidth g)"
    and "cameraY (follow_player g) = clamp (posY s - canvasHeight g / 2) 0 (worldHeight g - canvasHeight g)"
  using assms by (simp_all add: follow_player_def Let_def)

lemma clamp_range: "lo \<le> hi \<Longrightarrow> lo \<le> clamp v lo hi \<and> clamp v lo hi \<le> hi"
  by (auto simp: clamp_def)


text \<open>
  Claim C9, amended: in a frame in state \<^verbatim>\<open>FLYING\<close> with a player ship the camera
  is set to the player's position after the registry step minus half the viewport,
  clamped by \<^verbatim>\<open>min(max(v, 0), world - viewport)\<close>, which lies in the world bounds when the
  viewport is not larger than the world. In any other state the frame leaves the
  camera as it was.
\<close>

theorem camera_follows_player_when_flying:
  "(gameState g = FLYING \<and> getPlayerShip (entityManager g) = Some ship \<longrightarrow>
      cameraX (Game_gameLoop t g) =
        clamp (posX (foldl collide (Spaceship_update ship) (planets (entityManager g))) - canvasWidth g / 2)
          0 (worldWidth g - canvasWidth g)
    \<and> cameraY (Game_gameLoop t g) =
        clamp (posY (foldl collide (Spaceship_update ship) (planets (entityManager g))) - canvasHeight g / 2)
          0 (worldHeight g - canvasHeight g)
    \<and> (canvasWidth g \<le> worldWidth g \<longrightarrow>
          0 \<le> cameraX (Game_gameLoop t g) \<and> cameraX (Game_gameLoop t g) \<le> worldWidth g - canvasWidth g)
    \<and> (canvasHeight g \<le> worldHeight g \<longrightarrow>
          0 \<le> cameraY (Game_gameLoop t g) \<and> cameraY (Game_gameLoop t g) \<le> worldHeight g - canvasHeight g))
   \<and> (gameState g \<noteq> FLYING \<longrightarrow>
        cameraX (Game_gameLoop t g) = cameraX g \<and> cameraY (Game_gameLoop t g) = cameraY g)"
proof -
  have frozen: "gameState g \<noteq> FLYING \<longrightarrow>
        cameraX (Game_gameLoop t g) = cameraX g \<and> cameraY (Game_gameLoop t g) = cameraY g"
    by (simp add: Game_gameLoop_def Let_def render_fields)
  have flying: "cameraX (Game_gameLoop t g) =
        clamp (posX (foldl collide (Spaceship_update ship) (planets (entityManager g))) - canvasWidth g / 2)
          0 (worldWidth g - canvasWidth g)
    \<and> cameraY (Game_gameLoop t g) =
        clamp (posY (foldl collide (Spaceship_update ship) (planets (entityManager g))) - canvasHeight g / 2)
          0 (worldHeight g - canvasHeight g)"
    if f: "gameState g = FLYING" and p: "getPlayerShip (entityManager g) = Some ship"
  proof -
    let ?dt = "t - lastTime g"
    let ?g1 = "g\<lparr> console := console g @ [ConsoleLog [S ''[Game.gameLoop] Frame: '', N t]],
               lastTime := t,
               entityManager := EntityManager_update ?dt (worldWidth g) (worldHeight g) (entityManager g) \<rparr>"
    let ?p = "foldl collide (Spaceship_update ship) (planets (entityManager g))"
    from p obtain rest where r: "spaceships (entityManager g) = ship # rest"
      by (auto simp: getPlayerShip_def split: list.splits)
    then have "spaceships (entityManager ?g1) =
        ?p # map (\<lambda>ship. foldl collide (Spaceship_update ship) (planets (entityManager g))) rest"
      by (simp add: EntityManager_update_def)
    from interaction_player_position[OF this, of ?dt]
    obtain s' where s': "spaceships (entityManager (InteractionSystem_update ?dt ?g1)) =
        s' # map (\<lambda>ship. foldl collide (Spaceship_update ship) (planets (entityManager g))) rest"
      "posX s' = posX ?p" "posY s' = posY ?p"
      by blast
    have eq: "Game_gameLoop t g = Game_render (follow_player (InteractionSystem_update ?dt ?g1))"
      using f by (simp add: Game_gameLoop_def Let_def Game_update_eq)
    show ?thesis
      unfolding eq
      by (simp add: render_fields follow_player_camera[OF s'(1)] s'(2,3) interaction_geometry)
  qed
  from flying frozen show ?thesis
    using clamp_range[of 0 "worldWidth g - canvasWidth g"] clamp_range[of 0 "worldHeight g - canvasHeight g"]
    by auto
qed

subsection \<open>A landing, evaluated\<close>

lemma follow_player_fields:
  "gameState (follow_player g) = gameState g"
  "canvasWidth (follow_player g) = canvasWidth g" "canvasHeight (follow_player g) = canvasHeight g"
  "worldWidth (follow_player g) = worldWidth g" "worldHeight (follow_player g) = worldHeight g"
  "timers (follow_player g) = timers g" "nextTimerId (follow_player g) = nextTimerId g"
  "onLeaveCallback (ui (follow_player g)) = onLeaveCallback (ui g)"
  "messageText (ui (follow_player g)) = messageText (ui g)"
  by (simp_all add: follow_player_def Let_def updateBoostMeter_def split: list.splits)

lemma follow_player_ships:
  "spaceships (entityManager g) = s # rest \<Longrightarrow>
   spaceships (entityManager (follow_player g)) =
     s\<lparr> posX := clamp (posX s) 0 (worldWidth g), posY := clamp (posY s) 0 (worldHeight g) \<rparr> # rest"
  by (simp add: follow_player_def Let_def withPlayerShip_def)

lemma e_ship_fields:
  "posY (Spaceship_update e_ship) = 1000" "radius (Spaceship_update e_ship) = 21"
  "speed (Spaceship_update e_ship) = 0" "maxSpeed (Spaceship_update e_ship) = 5"
  "key_e (keys (Spaceship_update e_ship))"
  by (simp_all add: e_ship_def Spaceship_update_def update_position_def update_boost_def update_speed_def
      update_rotation_def handleKeyDown_def Spaceship_new_def setKey_def toLowerCase_e Let_def)

lemma e_ship_pushed_hover: "checkCollision e_ship_pushed demo_planet"
  by (simp add: e_ship_pushed_def checkCollision_def distance_def e_ship_fields demo_planet_def sqrt_81_10)

lemma landing_frame:
  defines "g1 \<equiv> (demo_game e_ship)\<lparr> console := [ConsoleLog [S ''[Game.gameLoop] Frame: '', N 16]],
               lastTime := 16,
               entityManager := EntityManager_update 16 5000 5000 (entityManager (demo_game e_ship)) \<rparr>"
  shows "landed_game = Game_render (follow_player (InteractionSystem_update 16 g1))"
    and "gameState g1 = FLYING"
    and "getPlayerShip (entityManager g1) = Some e_ship_pushed"
    and "spaceships (entityManager g1) = [e_ship_pushed]"
    and "findHovered e_ship_pushed (getAllPlanets (entityManager g1)) = Some demo_planet"
    and "key_e (keys e_ship_pushed)" and "canLand e_ship_pushed"
    and "timers g1 = []" and "nextTimerId g1 = 1"
    and "canvasWidth g1 = 800" and "worldWidth g1 = 5000" and "worldHeight g1 = 5000" and "canvasHeight g1 = 600"
proof -
  have f: "gameState (demo_game e_ship) = FLYING" by (simp add: demo_game_def)
  have "Game_gameLoop 16 (demo_game e_ship) = Game_render (follow_player (InteractionSystem_update 16 g1))"
    unfolding Game_gameLoop_def Let_def Game_update_eq g1_def using f
    by (simp add: demo_game_def)
  then show "landed_game = Game_render (follow_player (InteractionSystem_update 16 g1))"
    by (simp add: landed_game_def)
  show "gameState g1 = FLYING" by (simp add: g1_def demo_game_def)
  show s: "spaceships (entityManager g1) = [e_ship_pushed]"
    using e_ship_step by (simp add: g1_def demo_game_def EntityManager_update_def e_ship_pushed_def)
  then show "getPlayerShip (entityManager g1) = Some e_ship_pushed"
    by (simp add: getPlayerShip_def)
  have "planets (entityManager g1) = [demo_planet]"
    by (simp add: g1_def demo_game_def EntityManager_update_def)
  then show "findHovered e_ship_pushed (getAllPlanets (entityManager g1)) = Some demo_planet"
    by (simp add: getAllPlanets_def e_ship_pushed_hover)
  show "key_e (keys e_ship_pushed)" by (simp add: e_ship_pushed_def e_ship_fields)
  show "canLand e_ship_pushed" by (simp add: canLand_def e_ship_pushed_def e_ship_fields)
  show "timers g1 = []" "nextTimerId g1 = 1" "canvasWidth g1 = 800" "worldWidth g1 = 5000"
    "worldHeight g1 = 5000" "canvasHeight g1 = 600"
    by (simp_all add: g1_def demo_game_def)
qed

lemma landed_game_values:
  "gameState landed_game = PLANET_VIEW"
  "cameraX landed_game = 6081 / 10"
  "canvasWidth landed_game = 800" "worldWidth landed_game = 5000"
  "\<exists>s. spaceships (entityManager landed_game) = [s] \<and> posX s = 10081 / 10"
proof -
  let ?g1 = "(demo_game e_ship)\<lparr> console := [ConsoleLog [S ''[Game.gameLoop] Frame: '', N 16]],
               lastTime := 16,
               entityManager := EntityManager_update 16 5000 5000 (entityManager (demo_game e_ship)) \<rparr>"
  note l = landing_frame
  note st = landing_state[OF l(2) l(3) l(5) l(6) l(7), of 16]
  show "gameState landed_game = PLANET_VIEW"
    by (simp add: l(1) render_fields follow_player_fields st(1))
  from interaction_player_position[OF l(4), of 16]
  obtain s' where s': "spaceships (entityManager (InteractionSystem_update 16 ?g1)) = [s']"
    "posX s' = posX e_ship_pushed" "posY s' = posY e_ship_pushed" by blast
  have px: "posX e_ship_pushed = 10081 / 10" by (simp add: e_ship_pushed_def)
  show "cameraX landed_game = 6081 / 10"
    by (simp add: l(1) render_fields follow_player_camera[OF s'(1)] s'(2) px interaction_geometry l(10,11) clamp_def)
  show "canvasWidth landed_game = 800" "worldWidth landed_game = 5000"
    by (simp_all add: l(1) render_fields follow_player_fields interaction_geometry l(10,11))
  show "\<exists>s. spaceships (entityManager landed_game) = [s] \<and> posX s = 10081 / 10"
    by (simp add: l(1) render_fields follow_player_ships[OF s'(1)] s'(2) px interaction_geometry l(11,12) clamp_def)
qed


text \<open>
  Claim C9, as stated, fails: in state \<^verbatim>\<open>PLANET_VIEW\<close> a frame does not recompute
  the camera. After a landing and a resize of the window the camera of the next frame
  is not the player's position minus half the viewport.
\<close>

theorem camera_stale_after_resize:
  "gameState landed_then_resized = PLANET_VIEW
   \<and> cameraX (Game_gameLoop 32 landed_then_resized) \<noteq>
       clamp (posX (hd (spaceships (entityManager (Game_gameLoop 32 landed_then_resized))))
                - canvasWidth (Game_gameLoop 32 landed_then_resized) / 2)
         0 (worldWidth (Game_gameLoop 32 landed_then_resized) - canvasWidth (Game_gameLoop 32 landed_then_resized))"
proof -
  from landed_game_values(5) obtain s where s: "spaceships (entityManager landed_game) = [s]" "posX s = 10081 / 10"
    by blast
  have st: "gameState landed_then_resized = PLANET_VIEW"
    by (simp add: landed_then_resized_def resizeCanvas_def landed_game_values)
  then have nf: "gameState landed_then_resized \<noteq> FLYING" by (simp add: states_differ)
  have eq: "Game_gameLoop 32 landed_then_resized =
      Game_render (landed_then_resized\<lparr> console := console landed_then_resized @ [ConsoleLog [S ''[Game.gameLoop] Frame: '', N 32]],
                           lastTime := 32 \<rparr>)"
    using nf by (simp add: Game_gameLoop_def Let_def)
  show ?thesis
    using st unfolding eq
    by (simp add: render_fields landed_then_resized_def resizeCanvas_def landed_game_values s clamp_def)
qed

subsection \<open>Concrete runs\<close>

lemma e_ship_values:
  "posX e_ship = 1000" "posY e_ship = 1000" "radius e_ship = 21" "key_e (keys e_ship)" "canLand e_ship"
  by (simp_all add: e_ship_def handleKeyDown_def Spaceship_new_def setKey_def toLowerCase_e canLand_def)

lemma demo_game_values:
  "gameState (demo_game s) = FLYING" "getPlayerShip (entityManager (demo_game s)) = Some s"
  "timers (demo_game s) = []" "nextTimerId (demo_game s) = 1"
  "canvasWidth (demo_game s) = 800" "canvasHeight (demo_game s) = 600"
  "worldWidth (demo_game s) = 5000" "worldHeight (demo_game s) = 5000"
  "planets (entityManager (demo_game s)) = [demo_planet]"
  "spaceships (entityManager (demo_game s)) = [s]"
  by (simp_all add: demo_game_def getPlayerShip_def)

lemma keydown_e_sets_flag:
  "getPlayerShip (entityManager g) \<noteq> None \<Longrightarrow> interact_held (window_keydown ''e'' g)"
  by (auto simp: interact_held_def window_keydown_def getPlayerShip_def handleKeyDown_def setKey_def
      toLowerCase_e split: list.splits)


theorem landing_round_trip_witness:
  "gameState (demo_game e_ship) = FLYING
   \<and> getPlayerShip (entityManager (demo_game e_ship)) = Some e_ship
   \<and> findHovered e_ship (getAllPlanets (entityManager (demo_game e_ship))) = Some demo_planet
   \<and> key_e (keys e_ship) \<and> canLand e_ship
   \<and> timers (demo_game e_ship) = []
   \<and> gameState (InteractionSystem_update 16 (demo_game e_ship)) = PLANET_VIEW
   \<and> interact_held (modal_session 1 [AnimationFrame 32] [AnimationFrame 160, KeyDown ''e'']
        (InteractionSystem_update 16 (demo_game e_ship)))
   \<and> gameState (UI_hidePlanetInfo (modal_session 1 [AnimationFrame 32] [AnimationFrame 160, KeyDown ''e'']
        (InteractionSystem_update 16 (demo_game e_ship)))) = FLYING
   \<and> \<not> interact_held (UI_hidePlanetInfo (modal_session 1 [AnimationFrame 32] [AnimationFrame 160, KeyDown ''e'']
        (InteractionSystem_update 16 (demo_game e_ship))))"
proof -
  let ?g1 = "InteractionSystem_update 16 (demo_game e_ship)"
  have h: "findHovered e_ship (getAllPlanets (entityManager (demo_game e_ship))) = Some demo_planet"
    by (simp add: demo_hover e_ship_values)
  have fresh: "\<forall>t \<in> set (timers (demo_game e_ship)). timer_id t \<noteq> nextTimerId (demo_game e_ship)"
    by (simp add: demo_game_values)
  note t = landing_round_trip [OF demo_game_values(1) demo_game_values(2) h e_ship_values(4) e_ship_values(5) fresh,
      of 16, unfolded demo_game_values(4)]
  from t have before: "getPlayerShip (entityManager (modal_session 1 [AnimationFrame 32] [AnimationFrame 160] ?g1)) \<noteq> None"
    by blast
  have "modal_session 1 [AnimationFrame 32] [AnimationFrame 160, KeyDown ''e''] ?g1
      = window_keydown ''e'' (modal_session 1 [AnimationFrame 32] [AnimationFrame 160] ?g1)"
    by (simp add: modal_session_def)
  with before have held: "interact_held (modal_session 1 [AnimationFrame 32] [AnimationFrame 160, KeyDown ''e''] ?g1)"
    by (simp add: keydown_e_sets_flag)
  from t have st: "gameState ?g1 = PLANET_VIEW"
    by blast
  from t have after: "gameState (UI_hidePlanetInfo
        (modal_session 1 [AnimationFrame 32] [AnimationFrame 160, KeyDown ''e''] ?g1)) = FLYING
     \<and> \<not> interact_held (UI_hidePlanetInfo
        (modal_session 1 [AnimationFrame 32] [AnimationFrame 160, KeyDown ''e''] ?g1))"
    by blast
  from demo_game_values(1)[of e_ship] demo_game_values(2)[of e_ship] demo_game_values(3)[of e_ship]
    h e_ship_values(4) e_ship_values(5) st held after
  show ?thesis by blast
qed










theorem frame_gating_witness:
  "gameState (demo_game e_ship) = FLYING
   \<and> Game_gameLoop 16 (demo_game e_ship) =
       Game_render (follow_player (InteractionSystem_update (16 - lastTime (demo_game e_ship))
          ((demo_game e_ship)
             \<lparr> console := console (demo_game e_ship) @ [ConsoleLog [S ''[Game.gameLoop] Frame: '', N 16]],
               lastTime := 16,
               entityManager := EntityManager_update (16 - lastTime (demo_game e_ship))
                                  (worldWidth (demo_game e_ship)) (worldHeight (demo_game e_ship))
                                  (entityManager (demo_game e_ship)) \<rparr>)))
   \<and> spaceships (entityManager (Game_gameLoop 16 (demo_game e_ship))) \<noteq> spaceships (entityManager (demo_game e_ship))
   \<and> gameState (Game_gameLoop 16 (demo_game e_ship)) = PLANET_VIEW
   \<and> gameState landed_game \<noteq> FLYING
   \<and> entityManager (Game_gameLoop 32 landed_game) = entityManager landed_game
   \<and> gameState (Game_gameLoop 32 landed_game) = PLANET_VIEW"
proof -
  have f: "gameState (demo_game e_ship) = FLYING" by (rule demo_game_values)
  have nf: "gameState landed_game \<noteq> FLYING" by (simp add: landed_game_values states_differ)
  from landed_game_values(5) have moved:
    "spaceships (entityManager (Game_gameLoop 16 (demo_game e_ship))) \<noteq> spaceships (entityManager (demo_game e_ship))"
    by (auto simp: landed_game_def[symmetric] demo_game_values e_ship_values)
  have st: "gameState (Game_gameLoop 16 (demo_game e_ship)) = PLANET_VIEW"
    by (simp add: landed_game_def[symmetric] landed_game_values)
  from frame_gating [of "demo_game e_ship" 16] f
  have a: "Game_gameLoop 16 (demo_game e_ship) =
       Game_render (follow_player (InteractionSystem_update (16 - lastTime (demo_game e_ship))
          ((demo_game e_ship)
             \<lparr> console := console (demo_game e_ship) @ [ConsoleLog [S ''[Game.gameLoop] Frame: '', N 16]],
               lastTime := 16,
               entityManager := EntityManager_update (16 - lastTime (demo_game e_ship))
                                  (worldWidth (demo_game e_ship)) (worldHeight (demo_game e_ship))
                                  (entityManager (demo_game e_ship)) \<rparr>)))"
    by blast
  from frame_gating [of landed_game 32] nf
  have b: "entityManager (Game_gameLoop 32 landed_game) = entityManager landed_game"
    "gameState (Game_gameLoop 32 landed_game) = gameState landed_game"
    by blast+
  from b(2) have b2: "gameState (Game_gameLoop 32 landed_game) = PLANET_VIEW"
    by (simp add: landed_game_values)
  from f a moved st nf b(1) b2 show ?thesis by blast
qed


theorem camera_follows_player_when_flying_witness:
  "gameState (demo_game e_ship) = FLYING
   \<and> getPlayerShip (entityManager (demo_game e_ship)) = Some e_ship
   \<and> canvasWidth (demo_game e_ship) \<le> worldWidth (demo_game e_ship)
   \<and> canvasHeight (demo_game e_ship) \<le> worldHeight (demo_game e_ship)
   \<and> cameraX (Game_gameLoop 16 (demo_game e_ship)) = 6081 / 10
   \<and> cameraY (Game_gameLoop 16 (demo_game e_ship)) = 700
   \<and> gameState landed_game \<noteq> FLYING
   \<and> cameraX (Game_gameLoop 32 landed_game) = cameraX landed_game"
proof -
  have nf: "gameState landed_game \<noteq> FLYING" by (simp add: landed_game_values states_differ)
  have le: "canvasWidth (demo_game e_ship) \<le> worldWidth (demo_game e_ship)"
    "canvasHeight (demo_game e_ship) \<le> worldHeight (demo_game e_ship)"
    by (simp_all add: demo_game_values)
  from camera_follows_player_when_flying [of "demo_game e_ship" e_ship 16]
    demo_game_values(1)[of e_ship] demo_game_values(2)[of e_ship]
  have c: "cameraX (Game_gameLoop 16 (demo_game e_ship)) =
        clamp (posX (foldl collide (Spaceship_update e_ship) (planets (entityManager (demo_game e_ship))))
                 - canvasWidth (demo_game e_ship) / 2)
          0 (worldWidth (demo_game e_ship) - canvasWidth (demo_game e_ship))"
    "cameraY (Game_gameLoop 16 (demo_game e_ship)) =
        clamp (posY (foldl collide (Spaceship_update e_ship) (planets (entityManager (demo_game e_ship))))
                 - canvasHeight (demo_game e_ship) / 2)
          0 (worldHeight (demo_game e_ship) - canvasHeight (demo_game e_ship))"
    by blast+
  have cx: "cameraX (Game_gameLoop 16 (demo_game e_ship)) = 6081 / 10"
    and cy: "cameraY (Game_gameLoop 16 (demo_game e_ship)) = 700"
    unfolding c by (simp_all add: demo_game_values e_ship_step e_ship_fields clamp_def)
  from camera_follows_player_when_flying [of landed_game e_ship 32] nf
  have fr: "cameraX (Game_gameLoop 32 landed_game) = cameraX landed_game" by blast
  from demo_game_values(1)[of e_ship] demo_game_values(2)[of e_ship] le cx cy nf fr
  show ?thesis by blast
qed

subsection \<open>The collision correction, evaluated\<close>






subsection \<open>The collision correction in double arithmetic\<close>





























subsection \<open>World generation\<close>

lemma distance_commute: "distance x1 y1 x2 y2 = distance x2 y2 x1 y1"
  by (simp add: distance_def power2_commute)

lemma positionFree_iff:
  "positionFree x0 y0 r ps \<longleftrightarrow>
     (\<forall>planet \<in> set ps. r + radius planet + 200 \<le> distance x0 y0 (posX planet) (posY planet))"
  by (induction ps) (auto simp: Let_def)

lemma placement_attempt_valid:
  assumes "placement_attempt g rg = (v, x0, y0, r, rg1)"
  shows "v \<longleftrightarrow> valid_position g x0 y0 r"
  using assms
  by (auto simp: placement_attempt_def valid_position_def positionFree_iff getAllPlanets_def
      Let_def split_def not_less split: if_splits)

lemma placement_loop_result:
  assumes "placement_loop g (v, x0, y0, r, a, rg) = (v', x', y', r', a', rg')"
    and "v \<longrightarrow> valid_position g x0 y0 r" and "a \<le> maxAttempts"
  shows "(v' \<longrightarrow> valid_position g x' y' r') \<and> a \<le> a' \<and> a' \<le> maxAttempts \<and> (\<not> v' \<longrightarrow> a' = maxAttempts)"
  using assms
proof (induction g "(v, x0, y0, r, a, rg)" arbitrary: v x0 y0 r a rg rule: placement_loop.induct)
  case (1 g validPosition x0 y0 r attempts rg)
  show ?case
  proof (cases "\<not> validPosition \<and> attempts < maxAttempts")
    case True
    obtain v1 x1 y1 r1 rg1 where att: "placement_attempt g rg = (v1, x1, y1, r1, rg1)"
      by (metis prod_cases5)
    from True att "1.prems"(1)
    have loop: "placement_loop g (v1, x1, y1, r1, Suc attempts, rg1) = (v', x', y', r', a', rg')"
      by simp
    have "v1 \<longrightarrow> valid_position g x1 y1 r1" using placement_attempt_valid[OF att] by simp
    moreover have "Suc attempts \<le> maxAttempts" using True by simp
    ultimately have "(v' \<longrightarrow> valid_position g x' y' r') \<and> Suc attempts \<le> a' \<and> a' \<le> maxAttempts
        \<and> (\<not> v' \<longrightarrow> a' = maxAttempts)"
      using "1.hyps"[OF True att[symmetric] refl refl refl loop] by simp
    then show ?thesis by simp
  next
    case False
    with "1.prems" show ?thesis by auto
  qed
qed

lemma Planet_new_fields:
  "posX (fst (Planet_new x0 y0 r c rg)) = x0"
  "posY (fst (Planet_new x0 y0 r c rg)) = y0"
  "radius (fst (Planet_new x0 y0 r c rg)) = r"
  by (simp_all add: Planet_new_def Let_def split_def)

lemma place_planet_cases:
  obtains (placed) x0 y0 r a rg1
    where "placement_loop g (False, 0, 0, 0, 0, rg) = (True, x0, y0, r, a, rg1)"
      and "valid_position g x0 y0 r" and "a \<le> maxAttempts"
      and "place_planet g rg =
            (g\<lparr> entityManager := (entityManager g)
                 \<lparr> planets := planets (entityManager g)
                      @ [fst (Planet_new x0 y0 r None rg1), fst (Planet_new x0 y0 r None rg1)] \<rparr> \<rparr>,
             snd (Planet_new x0 y0 r None rg1))"
  | (skipped) x0 y0 r rg1
    where "placement_loop g (False, 0, 0, 0, 0, rg) = (False, x0, y0, r, maxAttempts, rg1)"
      and "place_planet g rg = (g\<lparr> console := console g @ [placement_warning] \<rparr>, rg1)"
proof -
  obtain v x0 y0 r a rg1 where l: "placement_loop g (False, 0, 0, 0, 0, rg) = (v, x0, y0, r, a, rg1)"
    by (metis prod_cases6)
  from placement_loop_result[OF l] have res: "v \<longrightarrow> valid_position g x0 y0 r" "a \<le> maxAttempts"
    "\<not> v \<longrightarrow> a = maxAttempts"
    by simp_all
  show thesis
  proof (cases v)
    case True
    with l res have "placement_loop g (False, 0, 0, 0, 0, rg) = (True, x0, y0, r, a, rg1)"
      "valid_position g x0 y0 r" "a \<le> maxAttempts" by simp_all
    moreover from l True have "place_planet g rg =
            (g\<lparr> entityManager := (entityManager g)
                 \<lparr> planets := planets (entityManager g)
                      @ [fst (Planet_new x0 y0 r None rg1), fst (Planet_new x0 y0 r None rg1)] \<rparr> \<rparr>,
             snd (Planet_new x0 y0 r None rg1))"
      by (simp add: place_planet_def Let_def split_def addPlanet_def)
    ultimately show thesis by (rule placed)
  next
    case False
    with l res have "placement_loop g (False, 0, 0, 0, 0, rg) = (False, x0, y0, r, maxAttempts, rg1)"
      by simp
    moreover from l False have "place_planet g rg = (g\<lparr> console := console g @ [placement_warning] \<rparr>, rg1)"
      by (simp add: place_planet_def)
    ultimately show thesis by (rule skipped)
  qed
qed

lemma startPosition_planets:
  "startPosition (g\<lparr> entityManager := (entityManager g)\<lparr> planets := ps \<rparr> \<rparr>) = startPosition g"
  "startPosition (g\<lparr> console := c \<rparr>) = startPosition g"
  "startPosition (g\<lparr> stars := st \<rparr>) = startPosition g"
  by (simp_all add: startPosition_def getPlayerShip_def split: list.splits)

lemma spaced_add:
  assumes "spaced g" and "valid_position g x0 y0 r"
    and "posX p = x0" "posY p = y0" "radius p = r"
  shows "spaced (g\<lparr> entityManager := (entityManager g)\<lparr> planets := planets (entityManager g) @ [p, p] \<rparr> \<rparr>)"
proof -
  from assms(2-5) have new: "\<forall>q \<in> set (planets (entityManager g)).
      radius p + radius q + 200 \<le> distance (posX p) (posY p) (posX q) (posY q)"
    and st: "300 \<le> distance (posX p) (posY p) (fst (startPosition g)) (snd (startPosition g))"
    by (simp_all add: valid_position_def)
  from new have new': "\<forall>q \<in> set (planets (entityManager g)).
      radius q + radius p + 200 \<le> distance (posX q) (posY q) (posX p) (posY p)"
    by (simp add: distance_commute add.commute)
  from assms(1) new new' st show ?thesis
    by (auto simp: spaced_def separated_def clear_of_start_def startPosition_planets)
qed

lemma place_planet_spaced:
  assumes "spaced g"
  shows "spaced (fst (place_planet g rg))"
    and "startPosition (fst (place_planet g rg)) = startPosition g"
    and "\<exists>k \<le> 1. console (fst (place_planet g rg)) = console g @ replicate k placement_warning
            \<and> length (planets (entityManager (fst (place_planet g rg)))) + 2 * k
                = length (planets (entityManager g)) + 2"
    and "set (planets (entityManager g)) \<subseteq> set (planets (entityManager (fst (place_planet g rg))))"
proof -
  have "spaced (fst (place_planet g rg))
    \<and> startPosition (fst (place_planet g rg)) = startPosition g
    \<and> (\<exists>k \<le> 1. console (fst (place_planet g rg)) = console g @ replicate k placement_warning
            \<and> length (planets (entityManager (fst (place_planet g rg)))) + 2 * k
                = length (planets (entityManager g)) + 2)
    \<and> set (planets (entityManager g)) \<subseteq> set (planets (entityManager (fst (place_planet g rg))))"
  proof (rule place_planet_cases[of g rg], goal_cases)
    case placed: (1 x0 y0 r a rg1)
    have "spaced (fst (place_planet g rg))"
      unfolding placed(4) fst_conv
      by (rule spaced_add[OF assms placed(2)]) (simp_all add: Planet_new_fields)
    moreover have "\<exists>k \<le> 1. console (fst (place_planet g rg)) = console g @ replicate k placement_warning
            \<and> length (planets (entityManager (fst (place_planet g rg)))) + 2 * k
                = length (planets (entityManager g)) + 2"
      unfolding placed(4) by (rule exI[of _ 0]) simp
    ultimately show ?thesis
      by (auto simp: placed(4) startPosition_planets)
  next
    case skipped: (2 x0 y0 r rg1)
    have "\<exists>k \<le> 1. console (fst (place_planet g rg)) = console g @ replicate k placement_warning
            \<and> length (planets (entityManager (fst (place_planet g rg)))) + 2 * k
                = length (planets (entityManager g)) + 2"
      unfolding skipped(2) by (rule exI[of _ 1]) simp
    moreover have "spaced (fst (place_planet g rg))"
      using assms unfolding skipped(2) by (simp add: spaced_def startPosition_planets)
    ultimately show ?thesis
      by (auto simp: skipped(2) startPosition_planets)
  qed
  then show "spaced (fst (place_planet g rg))"
    and "startPosition (fst (place_planet g rg)) = startPosition g"
    and "\<exists>k \<le> 1. console (fst (place_planet g rg)) = console g @ replicate k placement_warning
            \<and> length (planets (entityManager (fst (place_planet g rg)))) + 2 * k
                = length (planets (entityManager g)) + 2"
    and "set (planets (entityManager g)) \<subseteq> set (planets (entityManager (fst (place_planet g rg))))"
    by blast+
qed

declare place_planets.simps [simp del]

lemma place_planets_spaced:
  assumes "spaced g"
  shows "spaced (fst (place_planets i n g rg))
    \<and> startPosition (fst (place_planets i n g rg)) = startPosition g
    \<and> set (planets (entityManager g)) \<subseteq> set (planets (entityManager (fst (place_planets i n g rg))))
    \<and> (\<exists>k \<le> nat \<lceil>n\<rceil> - i.
          console (fst (place_planets i n g rg)) = console g @ replicate k placement_warning
        \<and> length (planets (entityManager (fst (place_planets i n g rg)))) + 2 * k
            = length (planets (entityManager g)) + 2 * (nat \<lceil>n\<rceil> - i))"
  using assms
proof (induction i n g rg rule: place_planets.induct)
  case (1 i numPlanets g rg)
  show ?case
  proof (cases "real i < numPlanets")
    case True
    obtain g1 rg1 where pp: "place_planet g rg = (g1, rg1)" by (metis surj_pair)
    note s = place_planet_spaced[OF "1.prems", of rg, unfolded pp fst_conv]
    from True pp have eq: "place_planets i numPlanets g rg = place_planets (Suc i) numPlanets g1 rg1"
      by (subst place_planets.simps) simp
    note ih = "1.IH"[OF True pp[symmetric] s(1)]
    from s(3) obtain k1 where k1: "k1 \<le> 1" "console g1 = console g @ replicate k1 placement_warning"
      "length (planets (entityManager g1)) + 2 * k1 = length (planets (entityManager g)) + 2"
      by blast
    from ih obtain k2 where k2: "k2 \<le> nat \<lceil>numPlanets\<rceil> - Suc i"
      "console (fst (place_planets (Suc i) numPlanets g1 rg1)) = console g1 @ replicate k2 placement_warning"
      "length (planets (entityManager (fst (place_planets (Suc i) numPlanets g1 rg1)))) + 2 * k2
          = length (planets (entityManager g1)) + 2 * (nat \<lceil>numPlanets\<rceil> - Suc i)"
      by blast
    from True have lt: "i < nat \<lceil>numPlanets\<rceil>" by linarith
    have "k1 + k2 \<le> nat \<lceil>numPlanets\<rceil> - i" using k1(1) k2(1) lt by simp
    moreover have "console (fst (place_planets (Suc i) numPlanets g1 rg1))
        = console g @ replicate (k1 + k2) placement_warning"
      by (simp add: k2(2) k1(2) replicate_add)
    moreover have "length (planets (entityManager (fst (place_planets (Suc i) numPlanets g1 rg1)))) + 2 * (k1 + k2)
        = length (planets (entityManager g)) + 2 * (nat \<lceil>numPlanets\<rceil> - i)"
      using k1(3) k2(3) lt by simp
    ultimately have cnt: "\<exists>k \<le> nat \<lceil>numPlanets\<rceil> - i.
          console (fst (place_planets (Suc i) numPlanets g1 rg1)) = console g @ replicate k placement_warning
        \<and> length (planets (entityManager (fst (place_planets (Suc i) numPlanets g1 rg1)))) + 2 * k
            = length (planets (entityManager g)) + 2 * (nat \<lceil>numPlanets\<rceil> - i)"
      by blast
    from ih s(2) s(4) cnt show ?thesis unfolding eq by auto
  next
    case False
    then have "nat \<lceil>numPlanets\<rceil> - i = 0" by linarith
    moreover from False have "place_planets i numPlanets g rg = (g, rg)"
      by (subst place_planets.simps) simp
    ultimately show ?thesis using "1.prems" by simp
  qed
qed

lemma placement_budget:
  "case placement_loop h (False, 0, 0, 0, 0, r) of
     (v, x0, y0, rad, a, r') \<Rightarrow>
        a \<le> 50 \<and> (v \<longrightarrow> valid_position h x0 y0 rad)
      \<and> (\<not> v \<longrightarrow> a = 50 \<and> place_planet h r = (h\<lparr> console := console h @ [placement_warning] \<rparr>, r'))"
proof (rule place_planet_cases[of h r], goal_cases)
  case (1 x0 y0 rad a rg1)
  then show ?case by (simp add: maxAttempts_def)
next
  case (2 x0 y0 rad rg1)
  then show ?case by (simp add: maxAttempts_def)
qed


text \<open>
  Claim C5: world generation from a registry without planets. Any two different
  planets of the result are at least the sum of their radii plus 200 apart, and every
  planet is at least 300 from the start position (the player ship's position, or the
  centre of the world without a ship). Every slot ends after at most 50 attempts; a slot
  whose 50 attempts all failed adds nothing but the warning to the console, and the loop
  goes on: the warnings and the placed planets together account for every slot. Each
  placed planet is in the registry's array twice, since \<^verbatim>\<open>addPlanet\<close> and
  \<^verbatim>\<open>currentPlanets.push\<close> append to the same array.
\<close>

theorem world_generation_spacing:
  assumes "planets (entityManager g) = []"
  shows "separated (planets (entityManager (fst (Game_generateWorld g rg))))
     \<and> clear_of_start (startPosition g) (planets (entityManager (fst (Game_generateWorld g rg))))
     \<and> (\<exists>k \<le> nat \<lceil>fst (randomInt 8 12 (snd (createStars (worldWidth g) (worldHeight g) 200 rg)))\<rceil>.
           console (fst (Game_generateWorld g rg)) = console g @ replicate k placement_warning
         \<and> length (planets (entityManager (fst (Game_generateWorld g rg))))
             = 2 * (nat \<lceil>fst (randomInt 8 12 (snd (createStars (worldWidth g) (worldHeight g) 200 rg)))\<rceil> - k))
     \<and> (\<forall>h r. case placement_loop h (False, 0, 0, 0, 0, r) of
           (v, x0, y0, rad, a, r') \<Rightarrow>
              a \<le> 50 \<and> (v \<longrightarrow> valid_position h x0 y0 rad)
            \<and> (\<not> v \<longrightarrow> a = 50
                 \<and> place_planet h r = (h\<lparr> console := console h @ [placement_warning] \<rparr>, r')))"
proof -
  let ?st = "createStars (worldWidth g) (worldHeight g) 200 rg"
  let ?g1 = "g\<lparr> stars := fst ?st \<rparr>"
  let ?n = "fst (randomInt 8 12 (snd ?st))"
  let ?rg2 = "snd (randomInt 8 12 (snd ?st))"
  have eq: "Game_generateWorld g rg = place_planets 0 ?n ?g1 ?rg2"
    by (simp add: Game_generateWorld_def Let_def split_def)
  have sp: "spaced ?g1"
    using assms by (simp add: spaced_def separated_def clear_of_start_def)
  note r = place_planets_spaced[OF sp, of 0 ?n ?rg2, folded eq]
  from r have a: "separated (planets (entityManager (fst (Game_generateWorld g rg))))"
    "clear_of_start (startPosition g) (planets (entityManager (fst (Game_generateWorld g rg))))"
    by (auto simp: spaced_def startPosition_planets)
  from r obtain k where k: "k \<le> nat \<lceil>?n\<rceil>"
    "console (fst (Game_generateWorld g rg)) = console ?g1 @ replicate k placement_warning"
    "length (planets (entityManager (fst (Game_generateWorld g rg)))) + 2 * k
       = length (planets (entityManager ?g1)) + 2 * (nat \<lceil>?n\<rceil> - 0)"
    by auto
  from k(3) assms k(1) have len: "length (planets (entityManager (fst (Game_generateWorld g rg)))) = 2 * (nat \<lceil>?n\<rceil> - k)"
    by simp
  from k(1) k(2) len have c: "\<exists>k \<le> nat \<lceil>?n\<rceil>.
           console (fst (Game_generateWorld g rg)) = console g @ replicate k placement_warning
         \<and> length (planets (entityManager (fst (Game_generateWorld g rg)))) = 2 * (nat \<lceil>?n\<rceil> - k)"
    by auto
  from a c placement_budget show ?thesis by blast
qed

text \<open>
  The constructor generates the world on a registry that holds the player ship at the
  centre of the world and no planet, so the world it leaves has this spacing.
\<close>

lemma generateWorld_spaced:
  assumes "planets (entityManager g) = []"
  shows "spaced (fst (Game_generateWorld g rg))"
    and "startPosition (fst (Game_generateWorld g rg)) = startPosition g"
proof -
  let ?st = "createStars (worldWidth g) (worldHeight g) 200 rg"
  let ?g1 = "g\<lparr> stars := fst ?st \<rparr>"
  have eq: "Game_generateWorld g rg =
      place_planets 0 (fst (randomInt 8 12 (snd ?st))) ?g1 (snd (randomInt 8 12 (snd ?st)))"
    by (simp add: Game_generateWorld_def Let_def split_def)
  have sp: "spaced ?g1"
    using assms by (simp add: spaced_def separated_def clear_of_start_def)
  from place_planets_spaced[OF sp, of 0 "fst (randomInt 8 12 (snd ?st))" "snd (randomInt 8 12 (snd ?st))", folded eq]
  show "spaced (fst (Game_generateWorld g rg))"
    and "startPosition (fst (Game_generateWorld g rg)) = startPosition g"
    by (simp_all add: startPosition_planets)
qed

lemma Game_new_world:
  "separated (planets (entityManager (fst (Game_new optSpeedScale innerWidth innerHeight sizeScale now rg))))"
  "clear_of_start (2500, 2500)
     (planets (entityManager (fst (Game_new optSpeedScale innerWidth innerHeight sizeScale now rg))))"
  "gameState (fst (Game_new optSpeedScale innerWidth innerHeight sizeScale now rg)) = FLYING"
proof -
  define cfg where "cfg = (case optSpeedScale of Some v \<Rightarrow> if v \<noteq> 0 then v else 3 / 10 | None \<Rightarrow> (3 / 10 :: real))"
  define g where "g = \<lparr> config_speedScale = cfg, canvasWidth = innerWidth, canvasHeight = innerHeight,
                baseShipWidth = 42, baseShipHeight = 21, ui = UI_new,
                entityManager = addSpaceship
                    (Spaceship_new (5000 / 2) (5000 / 2) cfg (42 * sizeScale) (21 * sizeScale)) EntityManager_new,
                worldWidth = 5000, worldHeight = 5000, stars = [],
                cameraX = 0, cameraY = 0, gameState = FLYING, lastTime = 0,
                timers = [], nextTimerId = 1, console = [], canvas = [] \<rparr>"
  have eq: "fst (Game_new optSpeedScale innerWidth innerHeight sizeScale now rg)
      = (fst (Game_generateWorld g rg))\<lparr> lastTime := now \<rparr>"
    by (simp add: Game_new_def Let_def split_def g_def cfg_def)
  have e: "planets (entityManager g) = []"
    by (simp add: g_def addSpaceship_def EntityManager_new_def)
  have st: "startPosition g = (2500, 2500)"
    by (simp add: g_def startPosition_def getPlayerShip_def addSpaceship_def EntityManager_new_def
        Spaceship_new_def)
  from generateWorld_spaced[OF e, of rg] st
  show "separated (planets (entityManager (fst (Game_new optSpeedScale innerWidth innerHeight sizeScale now rg))))"
    and "clear_of_start (2500, 2500)
     (planets (entityManager (fst (Game_new optSpeedScale innerWidth innerHeight sizeScale now rg))))"
    by (simp_all add: eq spaced_def)
  have "gameState (fst (place_planets i n h r)) = gameState h" for i n h r
  proof (induction i n h r rule: place_planets.induct)
    case (1 i numPlanets h r)
    show ?case
    proof (cases "real i < numPlanets")
      case True
      obtain h1 r1 where pp: "place_planet h r = (h1, r1)" by (metis surj_pair)
      have "gameState (fst (place_planet h r)) = gameState h"
        by (rule place_planet_cases[of h r]) simp_all
      then have "gameState h1 = gameState h" by (simp add: pp)
      with "1.IH"[OF True pp[symmetric]] True pp show ?thesis
        by (subst place_planets.simps) simp
    next
      case False
      then show ?thesis by (subst place_planets.simps) simp
    qed
  qed
  then show "gameState (fst (Game_new optSpeedScale innerWidth innerHeight sizeScale now rg)) = FLYING"
    by (simp add: eq Game_generateWorld_def Let_def split_def g_def)
qed

subsection \<open>World generation, evaluated\<close>

lemma Math_random_at: "Math_random (f, i) = (f i, (f, Suc i))"
  by (simp add: Math_random_def)

lemma randomInt_at: "randomInt lo hi (f, i) = (of_int \<lfloor>f i * (hi - lo + 1)\<rfloor> + lo, (f, Suc i))"
  by (simp add: randomInt_def Math_random_at)

lemma randomColor_at: "snd (randomColor (f, i)) = (f, i + 3)"
  by (simp add: randomColor_def randomInt_at)

lemma createStars_at: "snd (createStars w h n (f, i)) = (f, i + 3 * n)"
  by (induction n arbitrary: i) (simp_all add: randomInt_at Math_random_at split_def)

lemma demo_draws_values: "n \<le> 603 \<Longrightarrow> demo_draws n = 0" "603 < n \<Longrightarrow> demo_draws n = 1 / 4"
  by (simp_all add: demo_draws_def)

declare makeFeatures.simps [simp del]

lemma Suc6: "Suc (Suc (Suc (Suc (Suc (Suc i))))) = i + 6" "Suc (Suc (Suc i)) = i + 3"
  by simp_all

lemma makeFeatures_at:
  "snd (makeFeatures r k fc (f, i)) = (f, i + 6 * (nat \<lceil>fc\<rceil> - k))"
proof (induction r k fc "(f, i)" arbitrary: i rule: makeFeatures.induct)
  case (1 r k fc)
  show ?case
  proof (cases "real k < fc")
    case True
    then have lt: "k < nat \<lceil>fc\<rceil>" by linarith
    have "snd (makeFeatures r k fc (f, i)) = snd (makeFeatures r (Suc k) fc (f, i + 6))"
      by (subst makeFeatures.simps)
         (simp add: True Math_random_at randomColor_def randomInt_at split_def Let_def Suc6 add.commute)
    also have "\<dots> = (f, i + 6 + 6 * (nat \<lceil>fc\<rceil> - Suc k))"
    proof -
      have rc: "(fst (randomColor (f, Suc (Suc (Suc i)))), f, i + 6) = randomColor (f, Suc (Suc (Suc i)))"
        by (simp add: randomColor_def randomInt_at split_def Let_def)
      show ?thesis
        by (rule "1.hyps"[OF True refl Math_random_at[symmetric] refl Math_random_at[symmetric]
              refl Math_random_at[symmetric] refl rc])
    qed
    also have "\<dots> = (f, i + 6 * (nat \<lceil>fc\<rceil> - k))" using lt by simp
    finally show ?thesis .
  next
    case False
    then have "nat \<lceil>fc\<rceil> - k = 0" by linarith
    moreover from False have "makeFeatures r k fc (f, i) = ([], (f, i))"
      by (subst makeFeatures.simps) simp
    ultimately show ?thesis by simp
  qed
qed

lemma Planet_new_at:
  "snd (Planet_new x0 y0 r None (f, i)) = (f, i + 11 + 6 * nat \<lceil>real_of_int \<lfloor>f (i + 10) * 4\<rfloor> + 2\<rceil>)"
  by (simp add: Planet_new_def Let_def split_def randomColor_def randomInt_at Math_random_at
      makeFeatures_at eval_nat_numeral)

lemma Planet_new_demo:
  "593 < i \<Longrightarrow> snd (Planet_new x0 y0 r None (demo_draws, i)) = (demo_draws, i + 29)"
  by (simp add: Planet_new_at demo_draws_values)

declare placement_loop.simps [simp del]

lemma empty_world_values:
  "planets (entityManager empty_world) = []"
  "worldWidth empty_world = 5000" "worldHeight empty_world = 5000"
  "startPosition empty_world = (2500, 2500)"
  "console empty_world = []"
  by (simp_all add: empty_world_def addSpaceship_def EntityManager_new_def startPosition_def
      getPlayerShip_def Spaceship_new_def)

lemma root_bounds:
  "300 \<le> sqrt 11712800" "300 \<le> sqrt 2856050" "295 \<le> sqrt 3001250"
  by (rule real_le_rsqrt, simp)+

lemma first_attempt:
  assumes "planets (entityManager g) = []" "startPosition g = (2500, 2500)"
    "worldWidth g = 5000" "worldHeight g = 5000"
  shows "placement_attempt g (demo_draws, 601) = (True, 80, 80, 40, (demo_draws, 604))"
  using assms root_bounds
  by (simp add: placement_attempt_def randomInt_at demo_draws_values getAllPlanets_def distance_def
      Let_def not_less eval_nat_numeral)

lemma first_slot:
  assumes "planets (entityManager g) = []" "startPosition g = (2500, 2500)"
    "worldWidth g = 5000" "worldHeight g = 5000"
  shows "place_planet g (demo_draws, 601) =
     (g\<lparr> entityManager := (entityManager g)\<lparr> planets := [first_planet, first_planet] \<rparr> \<rparr>,
      (demo_draws, 633))"
proof -
  have "placement_loop g (False, 0, 0, 0, 0, (demo_draws, 601)) = (True, 80, 80, 40, 1, (demo_draws, 604))"
    by (subst placement_loop.simps, simp add: first_attempt[OF assms] maxAttempts_def,
        subst placement_loop.simps, simp)
  then show ?thesis
    using assms(1) Planet_new_demo[of 604 80 80 40]
    by (simp add: place_planet_def Let_def split_def addPlanet_def first_planet_def)
qed

lemma first_planet_values: "posX first_planet = 80" "posY first_planet = 80" "radius first_planet = 40"
  by (simp_all add: first_planet_def Planet_new_fields)

lemma second_planet_values:
  "posX second_planet = 1305" "posY second_planet = 1305" "radius second_planet = 55"
  by (simp_all add: second_planet_def Planet_new_fields)

lemma second_attempt:
  assumes "planets (entityManager g) = [first_planet, first_planet]" "startPosition g = (2500, 2500)"
    "worldWidth g = 5000" "worldHeight g = 5000"
  shows "placement_attempt g (demo_draws, 633) = (True, 1305, 1305, 55, (demo_draws, 636))"
  using assms root_bounds
  by (simp add: placement_attempt_def randomInt_at demo_draws_values getAllPlanets_def distance_def
      Let_def not_less eval_nat_numeral first_planet_values)

lemma second_slot:
  assumes "planets (entityManager g) = [first_planet, first_planet]" "startPosition g = (2500, 2500)"
    "worldWidth g = 5000" "worldHeight g = 5000"
  shows "planets (entityManager (fst (place_planet g (demo_draws, 633)))) =
     [first_planet, first_planet, second_planet, second_planet]"
proof -
  have "placement_loop g (False, 0, 0, 0, 0, (demo_draws, 633)) = (True, 1305, 1305, 55, 1, (demo_draws, 636))"
    by (subst placement_loop.simps, simp add: second_attempt[OF assms] maxAttempts_def,
        subst placement_loop.simps, simp)
  then show ?thesis
    using assms(1)
    by (simp add: place_planet_def Let_def split_def addPlanet_def second_planet_def)
qed

lemma startPosition_cong:
  "spaceships (entityManager g') = spaceships (entityManager g) \<Longrightarrow> worldWidth g' = worldWidth g
   \<Longrightarrow> worldHeight g' = worldHeight g \<Longrightarrow> startPosition g' = startPosition g"
  by (simp add: startPosition_def getPlayerShip_def split: list.splits)

lemma demo_generation:
  "set [first_planet, second_planet]
     \<subseteq> set (planets (entityManager (fst (Game_generateWorld empty_world (demo_draws, 0)))))"
proof -
  let ?g1 = "empty_world\<lparr> stars := fst (createStars 5000 5000 200 (demo_draws, 0)) \<rparr>"
  let ?g2 = "?g1\<lparr> entityManager := (entityManager ?g1)\<lparr> planets := [first_planet, first_planet] \<rparr> \<rparr>"
  let ?s3 = "place_planet ?g2 (demo_draws, 633)"
  have n: "randomInt 8 12 (demo_draws, 600) = (8, (demo_draws, 601))"
    by (simp add: randomInt_at demo_draws_values)
  have eq0: "Game_generateWorld empty_world (demo_draws, 0) = place_planets 0 8 ?g1 (demo_draws, 601)"
    using createStars_at[of 5000 5000 200 demo_draws 0] n
    by (simp add: Game_generateWorld_def Let_def split_def empty_world_values)
  have v1: "planets (entityManager ?g1) = []" "startPosition ?g1 = (2500, 2500)"
    "worldWidth ?g1 = 5000" "worldHeight ?g1 = 5000"
    by (simp_all add: empty_world_values startPosition_planets)
  have s1: "place_planet ?g1 (demo_draws, 601) = (?g2, (demo_draws, 633))"
    by (rule first_slot[OF v1])
  have eq1: "place_planets 0 8 ?g1 (demo_draws, 601) = place_planets 1 8 ?g2 (demo_draws, 633)"
    by (subst place_planets.simps) (simp add: s1)
  have v2: "planets (entityManager ?g2) = [first_planet, first_planet]" "startPosition ?g2 = (2500, 2500)"
    "worldWidth ?g2 = 5000" "worldHeight ?g2 = 5000"
    using startPosition_cong[of ?g2 empty_world]
    by (simp_all add: empty_world_values)
  have p3: "planets (entityManager (fst ?s3)) = [first_planet, first_planet, second_planet, second_planet]"
    by (rule second_slot[OF v2])
  have eq2: "place_planets 1 8 ?g2 (demo_draws, 633) = place_planets 2 8 (fst ?s3) (snd ?s3)"
    by (subst place_planets.simps) (simp add: split_def numeral_2_eq_2)
  have sp1: "spaced ?g1"
    by (simp add: spaced_def separated_def clear_of_start_def empty_world_values)
  from place_planet_spaced(1)[OF sp1, of "(demo_draws, 601)"] have sp2: "spaced ?g2"
    by (simp add: s1)
  from place_planet_spaced(1)[OF sp2, of "(demo_draws, 633)"] have sp3: "spaced (fst ?s3)" .
  from place_planets_spaced[OF sp3, of 2 8 "snd ?s3"]
  have "set (planets (entityManager (fst ?s3)))
      \<subseteq> set (planets (entityManager (fst (place_planets 2 8 (fst ?s3) (snd ?s3)))))"
    by blast
  then show ?thesis
    unfolding eq0 eq1 eq2 p3 by auto
qed


lemma stuck_attempt:
  "placement_attempt empty_world (half_draws, i) = (False, 2500, 2500, 70, (half_draws, i + 3))"
  by (simp add: placement_attempt_def randomInt_at half_draws_def empty_world_values distance_def
      Let_def getAllPlanets_def Suc6)

lemma stuck_loop:
  "a + Suc d = 50 \<Longrightarrow>
   placement_loop empty_world (False, x0, y0, r, a, (half_draws, i))
     = (False, 2500, 2500, 70, 50, (half_draws, i + 3 * Suc d))"
proof (induction d arbitrary: a x0 y0 r i)
  case 0
  then have a: "a = 49" by simp
  show ?case
    unfolding a
    by (subst placement_loop.simps, simp add: stuck_attempt maxAttempts_def,
        subst placement_loop.simps, simp add: maxAttempts_def)
next
  case (Suc d)
  then have lt: "a < 50" and nx: "Suc a + Suc d = 50" by simp_all
  have "placement_loop empty_world (False, x0, y0, r, a, (half_draws, i))
      = placement_loop empty_world (False, 2500, 2500, 70, Suc a, (half_draws, i + 3))"
    using lt by (subst placement_loop.simps) (simp add: stuck_attempt maxAttempts_def)
  also have "\<dots> = (False, 2500, 2500, 70, 50, (half_draws, i + 3 + 3 * Suc d))"
    by (rule Suc.IH[OF nx])
  finally show ?case by (simp add: algebra_simps)
qed

lemma stuck_slot:
  "placement_loop empty_world (False, 0, 0, 0, 0, (half_draws, 0)) = (False, 2500, 2500, 70, 50, (half_draws, 150))"
  using stuck_loop[of 0 49 0 0 0 0] by simp

theorem world_generation_spacing_witness:
  "planets (entityManager empty_world) = []
   \<and> first_planet \<in> set (planets (entityManager (fst (Game_generateWorld empty_world (demo_draws, 0)))))
   \<and> second_planet \<in> set (planets (entityManager (fst (Game_generateWorld empty_world (demo_draws, 0)))))
   \<and> first_planet \<noteq> second_planet
   \<and> radius first_planet = 40 \<and> radius second_planet = 55
   \<and> radius first_planet + radius second_planet + 200
        \<le> distance (posX first_planet) (posY first_planet) (posX second_planet) (posY second_planet)
   \<and> 300 \<le> distance (posX first_planet) (posY first_planet)
               (fst (startPosition empty_world)) (snd (startPosition empty_world))
   \<and> placement_loop empty_world (False, 0, 0, 0, 0, (half_draws, 0))
        = (False, 2500, 2500, 70, 50, (half_draws, 150))
   \<and> place_planet empty_world (half_draws, 0)
        = (empty_world\<lparr> console := console empty_world @ [placement_warning] \<rparr>, (half_draws, 150))"
proof -
  have e: "planets (entityManager empty_world) = []" by (rule empty_world_values)
  from demo_generation have m:
    "first_planet \<in> set (planets (entityManager (fst (Game_generateWorld empty_world (demo_draws, 0)))))"
    "second_planet \<in> set (planets (entityManager (fst (Game_generateWorld empty_world (demo_draws, 0)))))"
    by simp_all
  have ne: "first_planet \<noteq> second_planet"
    using first_planet_values(1) second_planet_values(1) by auto
  note t = world_generation_spacing [OF e, of "(demo_draws, 0)"]
  from t m ne
  have d: "radius first_planet + radius second_planet + 200
        \<le> distance (posX first_planet) (posY first_planet) (posX second_planet) (posY second_planet)"
    "300 \<le> distance (posX first_planet) (posY first_planet)
               (fst (startPosition empty_world)) (snd (startPosition empty_world))"
    unfolding separated_def clear_of_start_def by blast+
  note q = t[THEN conjunct2, THEN conjunct2, THEN conjunct2, rule_format, of empty_world "(half_draws, 0)"]
  from q have s: "place_planet empty_world (half_draws, 0)
        = (empty_world\<lparr> console := console empty_world @ [placement_warning] \<rparr>, (half_draws, 150))"
    by (simp add: stuck_slot)
  from e m ne first_planet_values(3) second_planet_values(3) d stuck_slot s show ?thesis by blast
qed


end
